theory Spec2Isabelle
  imports Complex_Main "HOL-Library.AList"
begin

section \<open>Errors\<close>

text \<open>
  Every fatal path of the planner (\<open>ICHECK\<close>, \<open>LOG(FATAL)\<close>) and every dereference of
  a null pointer is a value of this type.  \<open>MixedDeviceAnnotation\<close> carries the two counts
  printed by \<open>Plan\<close>.
\<close>

datatype error =
    CheckFailed
  | UnknownTextureConvention
  | SymbolicShape
  | NegativeShape int
  | NullDeref
  | IteratorOutOfRange
  | IfNotSupported
  | MixedDeviceAnnotation nat nat

section \<open>runtime/texture.h\<close>

text \<open>\<open>size_t\<close> is modelled as \<open>nat\<close> with the wrap-around modulo \<open>2 ^ 64\<close> written out.\<close>

definition size_max :: nat where
  "size_max = 2 ^ 64"

record Texture2DShape =
  width :: int
  height :: int
  channel :: int

definition DefaultTextureLayoutSeparator :: "nat \<Rightarrow> string \<Rightarrow> error + nat" where
  "DefaultTextureLayoutSeparator shape_rank convention =
     (if convention = ''texture'' then Inr ((shape_rank + size_max - 2) mod size_max)
      else if convention = ''texture:weight'' then Inr 1
      else if convention = ''texture:nhwc'' then Inr 2
      else Inl UnknownTextureConvention)"

text \<open>
  The loop of \<open>ApplyTexture2DFlattening\<close> over \<open>i = 0 ..< rank - 1\<close>; the list holds the
  dimensions not yet visited and \<open>i\<close> is the index of its head.
\<close>

fun flatten_loop :: "nat \<Rightarrow> nat \<Rightarrow> int list \<Rightarrow> Texture2DShape \<Rightarrow> Texture2DShape" where
  "flatten_loop axis i [] texture = texture"
| "flatten_loop axis i (d # ds) texture =
     flatten_loop axis (Suc i) ds
       (if i < axis then texture\<lparr>height := height texture * d\<rparr>
        else texture\<lparr>width := width texture * d\<rparr>)"

definition ApplyTexture2DFlattening :: "int list \<Rightarrow> nat \<Rightarrow> nat \<Rightarrow> error + Texture2DShape" where
  "ApplyTexture2DFlattening shape rank axis =
     (if \<not> axis < rank then Inl CheckFailed
      else if length shape < rank then Inl IteratorOutOfRange
      else Inr (flatten_loop axis 0 (take (rank - 1) shape)
                  \<lparr>width = 1, height = 1, channel = shape ! (rank - 1)\<rparr>))"

fun starts_with :: "string \<Rightarrow> string \<Rightarrow> bool" where
  "starts_with [] s = True"
| "starts_with (p # ps) [] = False"
| "starts_with (p # ps) (c # cs) = (p = c \<and> starts_with ps cs)"

fun find_substring :: "string \<Rightarrow> string \<Rightarrow> bool" where
  "find_substring p [] = (p = [])"
| "find_substring p (c # cs) = (starts_with p (c # cs) \<or> find_substring p cs)"

definition IsTextureStorage :: "string \<Rightarrow> bool" where
  "IsTextureStorage scope = find_substring ''texture'' scope"

section \<open>Tensor types and storage tokens\<close>

text \<open>
  A dimension is a \<open>PrimExpr\<close>: \<open>tir::as_const_int\<close> yields a pointer to its value when
  it is a constant and null otherwise.
\<close>

datatype dim = ConstDim int | SymbolicDim

fun as_const_int :: "dim \<Rightarrow> int option" where
  "as_const_int (ConstDim v) = Some v"
| "as_const_int SymbolicDim = None"

record DataType =
  code :: nat
  bits :: nat
  lanes :: nat

record TensorTypeNode =
  shape :: "dim list"
  dtype :: DataType

datatype rtype = TensorType TensorTypeNode | TupleType "rtype list" | OtherType

text \<open>
  \<open>ref_counter\<close>, \<open>device_type\<close> (C \<open>int\<close>) and \<open>storage_id\<close> (\<open>int64_t\<close>) are
  unbounded integers: signed overflow is undefined in C++, and the model covers the
  executions in which it does not occur.  \<open>max_bytes\<close> is a \<open>size_t\<close>.
\<close>

record StorageToken =
  ref_counter :: int
  max_bytes :: nat
  ttype :: "TensorTypeNode option"
  device_type :: int
  storage_id :: int
  storage_scope :: string

definition new_StorageToken :: StorageToken where
  "new_StorageToken =
     \<lparr>ref_counter = 0, max_bytes = 0, ttype = None, device_type = 0,
      storage_id = - 1, storage_scope = ''global''\<rparr>"

text \<open>
  Tokens live in the planner's arena and are shared through pointers; the arena is a
  store from addresses to tokens.
\<close>

type_synonym addr = nat
type_synonym store = "addr \<Rightarrow> StorageToken"

section \<open>TokenAllocator1D\<close>

definition DivRoundUp :: "nat \<Rightarrow> nat \<Rightarrow> nat" where
  "DivRoundUp sz word_size = ((sz + word_size - 1) mod size_max) div word_size"

fun GetMemorySize_loop :: "dim list \<Rightarrow> nat \<Rightarrow> error + nat" where
  "GetMemorySize_loop [] sz = Inr sz"
| "GetMemorySize_loop (d # ds) sz =
     (case as_const_int d of
        None \<Rightarrow> Inl SymbolicShape
      | Some v \<Rightarrow>
          if \<not> 0 \<le> v then Inl (NegativeShape v)
          else GetMemorySize_loop ds ((sz * nat v) mod size_max))"

definition GetMemorySize :: "StorageToken \<Rightarrow> error + nat" where
  "GetMemorySize prototype =
     (case ttype prototype of
        None \<Rightarrow> Inl CheckFailed
      | Some tt \<Rightarrow>
          (case GetMemorySize_loop (shape tt) 1 of
             Inl e \<Rightarrow> Inl e
           | Inr sz \<Rightarrow>
               Inr ((sz * DivRoundUp (bits (dtype tt) * lanes (dtype tt)) 8) mod size_max)))"

text \<open>
  \<open>std::multimap<size_t, StorageToken*>\<close>: the entries in key order, equal keys in
  insertion order.  An iterator is an index into the list; \<open>end()\<close> is its length.
\<close>

type_synonym multimap = "(nat \<times> addr) list"

definition lower_bound :: "multimap \<Rightarrow> nat \<Rightarrow> nat" where
  "lower_bound m k = length (takeWhile (\<lambda>e. fst e < k) m)"

definition upper_bound :: "multimap \<Rightarrow> nat \<Rightarrow> nat" where
  "upper_bound m k = length (takeWhile (\<lambda>e. fst e \<le> k) m)"

definition multimap_insert :: "multimap \<Rightarrow> nat \<Rightarrow> addr \<Rightarrow> multimap" where
  "multimap_insert m k v = (let i = upper_bound m k in take i m @ (k, v) # drop i m)"

definition multimap_erase :: "multimap \<Rightarrow> nat \<Rightarrow> multimap" where
  "multimap_erase m it = take it m @ drop (Suc it) m"

record TokenAllocator1D =
  free_1d :: multimap
  data_1d :: "addr list"

definition match_range :: nat where
  "match_range = 16"

text \<open>
  The first loop of \<open>Request\<close>, \<open>for (it = mid; it != end; ++it)\<close>: the list holds the
  entries from \<open>it\<close> on.  It yields the iterator of the first entry on the requester's
  device.  An iterator that walks past \<open>end()\<close> of the map is an error.
\<close>

fun search_larger :: "store \<Rightarrow> int \<Rightarrow> multimap \<Rightarrow> nat \<Rightarrow> nat \<Rightarrow> error + nat option" where
  "search_larger S dev [] it stop = (if it = stop then Inr None else Inl IteratorOutOfRange)"
| "search_larger S dev (e # es) it stop =
     (if it = stop then Inr None
      else if device_type (S (snd e)) \<noteq> dev then search_larger S dev es (Suc it) stop
      else if ref_counter (S (snd e)) \<noteq> 0 then Inl CheckFailed
      else Inr (Some it))"

text \<open>
  The second loop, \<open>for (it = mid; it != begin;) { --it; ... }\<close>: the list holds the
  entries before \<open>it\<close>, nearest first.
\<close>

fun search_smaller :: "store \<Rightarrow> int \<Rightarrow> multimap \<Rightarrow> nat \<Rightarrow> nat \<Rightarrow> error + nat option" where
  "search_smaller S dev [] it start = (if it = start then Inr None else Inl IteratorOutOfRange)"
| "search_smaller S dev (e # es) it start =
     (if it = start then Inr None
      else if device_type (S (snd e)) \<noteq> dev then search_smaller S dev es (it - 1) start
      else if ref_counter (S (snd e)) \<noteq> 0 then Inl CheckFailed
      else Inr (Some (it - 1)))"

text \<open>The body both loops run on a hit: update the token, erase the entry, return it.\<close>

definition reuse1D ::
  "addr \<Rightarrow> nat \<Rightarrow> nat \<Rightarrow> store \<Rightarrow> TokenAllocator1D \<Rightarrow> addr option \<times> store \<times> TokenAllocator1D" where
  "reuse1D prototype sz it S a =
     (let tok = snd (free_1d a ! it);
          S1 = S(tok := (S tok)\<lparr>max_bytes := max sz (max_bytes (S tok))\<rparr>);
          S2 = S1(tok := (S1 tok)\<lparr>ref_counter := ref_counter (S1 prototype)\<rparr>)
      in (Some tok, S2, a\<lparr>free_1d := multimap_erase (free_1d a) it\<rparr>))"

definition Request1D ::
  "addr \<Rightarrow> store \<Rightarrow> TokenAllocator1D \<Rightarrow> error + (addr option \<times> store \<times> TokenAllocator1D)" where
  "Request1D prototype S a =
     (case GetMemorySize (S prototype) of
        Inl e \<Rightarrow> Inl e
      | Inr sz \<Rightarrow>
          if match_range = 0 then Inr (None, S, a)
          else
            let first = lower_bound (free_1d a) (sz div match_range);
                mid = lower_bound (free_1d a) sz;
                last = upper_bound (free_1d a) ((sz * match_range) mod size_max);
                dev = device_type (S prototype)
            in (case search_larger S dev (drop mid (free_1d a)) mid last of
                  Inl e \<Rightarrow> Inl e
                | Inr (Some it) \<Rightarrow> Inr (reuse1D prototype sz it S a)
                | Inr None \<Rightarrow>
                    (case search_smaller S dev (rev (take mid (free_1d a))) mid first of
                       Inl e \<Rightarrow> Inl e
                     | Inr (Some it) \<Rightarrow> Inr (reuse1D prototype sz it S a)
                     | Inr None \<Rightarrow> Inr (None, S, a))))"

definition Alloc1D ::
  "addr \<Rightarrow> int \<Rightarrow> store \<Rightarrow> TokenAllocator1D \<Rightarrow> error + (addr \<times> store \<times> TokenAllocator1D)" where
  "Alloc1D prototype sid S a =
     (case GetMemorySize (S prototype) of
        Inl e \<Rightarrow> Inl e
      | Inr sz \<Rightarrow>
          Inr (prototype,
               S(prototype := (S prototype)\<lparr>max_bytes := sz, storage_id := sid\<rparr>),
               a\<lparr>data_1d := data_1d a @ [prototype]\<rparr>))"

definition CheckForRelease1D :: "addr \<Rightarrow> store \<Rightarrow> TokenAllocator1D \<Rightarrow> error + TokenAllocator1D" where
  "CheckForRelease1D tok S a =
     (if \<not> 0 \<le> storage_id (S tok) then Inl CheckFailed
      else if \<not> 0 \<le> ref_counter (S tok) then Inl CheckFailed
      else if ref_counter (S tok) = 0
        then Inr (a\<lparr>free_1d := multimap_insert (free_1d a) (max_bytes (S tok)) tok\<rparr>)
      else Inr a)"

definition TotalAllocBytes :: "store \<Rightarrow> TokenAllocator1D \<Rightarrow> nat" where
  "TotalAllocBytes S a = fold (\<lambda>p total. (total + max_bytes (S p)) mod size_max) (data_1d a) 0"

section \<open>TokenAllocator2D\<close>

fun const_dims :: "dim list \<Rightarrow> int list option" where
  "const_dims [] = Some []"
| "const_dims (d # ds) =
     (case as_const_int d of
        None \<Rightarrow> None
      | Some v \<Rightarrow> (case const_dims ds of None \<Rightarrow> None | Some vs \<Rightarrow> Some (v # vs)))"

text \<open>
  \<open>Shape::operator[]\<close> dereferences \<open>tir::as_const_int\<close> without a check, so a symbolic
  dimension is a null dereference; the \<open>ICHECK\<close> on the axis comes before any read.
\<close>

definition GetSize2D :: "StorageToken \<Rightarrow> error + Texture2DShape" where
  "GetSize2D prototype =
     (case ttype prototype of
        None \<Rightarrow> Inl CheckFailed
      | Some tt \<Rightarrow>
          (case DefaultTextureLayoutSeparator (length (shape tt)) (storage_scope prototype) of
             Inl e \<Rightarrow> Inl e
           | Inr axis \<Rightarrow>
               if \<not> axis < length (shape tt) then Inl CheckFailed
               else (case const_dims (shape tt) of
                       None \<Rightarrow> Inl NullDeref
                     | Some ds \<Rightarrow> ApplyTexture2DFlattening ds (length (shape tt)) axis)))"

record MemBlock =
  block_token :: "addr option"
  block_x :: int
  block_y :: int

text \<open>
  \<open>blocks_\<close> is an \<open>unordered_map\<close>; \<open>free_list_\<close> is an \<open>unordered_set\<close>, held as the
  list of its elements in iteration order.
\<close>

record TokenAllocator2D =
  blocks_2d :: "int \<Rightarrow> MemBlock option"
  free_list_2d :: "int list"

definition int64_max :: int where
  "int64_max = 2 ^ 63 - 1"

text \<open>The local variables of \<open>Request\<close> that the loop over the free list updates.\<close>

record search2d =
  min_added_size :: int
  min_wasted_size :: int
  best_storage_id :: int
  best_mem :: MemBlock

definition search2d_init :: search2d where
  "search2d_init =
     \<lparr>min_added_size = int64_max, min_wasted_size = int64_max, best_storage_id = - 1,
      best_mem = \<lparr>block_token = None, block_x = 0, block_y = 0\<rparr>\<rparr>"

text \<open>
  One iteration of the loop.  \<open>blocks_[free_id]\<close> on a missing key yields a block with
  a null token, whose dereference fails.
\<close>

definition Request2D_body ::
  "store \<Rightarrow> (int \<Rightarrow> MemBlock option) \<Rightarrow> DataType \<Rightarrow> Texture2DShape \<Rightarrow> int \<Rightarrow> int \<Rightarrow>
   search2d \<Rightarrow> error + search2d" where
  "Request2D_body S blocks dt shp requested_size free_id r =
     (case blocks free_id of
        None \<Rightarrow> Inl NullDeref
      | Some cached \<Rightarrow>
          (case block_token cached of
             None \<Rightarrow> Inl NullDeref
           | Some t \<Rightarrow>
               (case ttype (S t) of
                  None \<Rightarrow> Inl NullDeref
                | Some tt \<Rightarrow>
                    if dtype tt \<noteq> dt then Inr r
                    else
                      let cached_size = block_x cached * block_y cached;
                          new_x = max (block_x cached) (width shp);
                          new_y = max (block_y cached) (height shp);
                          expanded_size = new_x * new_y;
                          added_size = expanded_size - cached_size;
                          wasted_size = expanded_size - requested_size
                      in if (min_added_size r > 0 \<and> added_size < min_added_size r) \<or>
                            (min_added_size r = 0 \<and> wasted_size < min_wasted_size r)
                         then Inr \<lparr>min_added_size = added_size, min_wasted_size = wasted_size,
                                   best_storage_id = free_id,
                                   best_mem = \<lparr>block_token = None, block_x = new_x,
                                               block_y = new_y\<rparr>\<rparr>
                         else Inr r)))"

fun Request2D_loop ::
  "store \<Rightarrow> (int \<Rightarrow> MemBlock option) \<Rightarrow> DataType \<Rightarrow> Texture2DShape \<Rightarrow> int \<Rightarrow> int list \<Rightarrow>
   search2d \<Rightarrow> error + search2d" where
  "Request2D_loop S blocks dt shp requested_size [] r = Inr r"
| "Request2D_loop S blocks dt shp requested_size (free_id # ids) r =
     (case Request2D_body S blocks dt shp requested_size free_id r of
        Inl e \<Rightarrow> Inl e
      | Inr r' \<Rightarrow> Request2D_loop S blocks dt shp requested_size ids r')"

definition Request2D ::
  "addr \<Rightarrow> store \<Rightarrow> TokenAllocator2D \<Rightarrow> error + (addr option \<times> store \<times> TokenAllocator2D)" where
  "Request2D prototype S a =
     (case GetSize2D (S prototype) of
        Inl e \<Rightarrow> Inl e
      | Inr shp \<Rightarrow>
          (case ttype (S prototype) of
             None \<Rightarrow> Inl NullDeref
           | Some ptt \<Rightarrow>
               let requested_size = height shp * width shp
               in (case Request2D_loop S (blocks_2d a) (dtype ptt) shp requested_size
                          (free_list_2d a) search2d_init of
                     Inl e \<Rightarrow> Inl e
                   | Inr r \<Rightarrow>
                       if min_added_size r \<le> requested_size then
                         (case blocks_2d a (best_storage_id r) of
                            None \<Rightarrow> Inl NullDeref
                          | Some b \<Rightarrow>
                              (case block_token b of
                                 None \<Rightarrow> Inl NullDeref
                               | Some tok \<Rightarrow>
                                   Inr (Some tok,
                                        S(tok := (S tok)\<lparr>ref_counter := ref_counter (S prototype)\<rparr>),
                                        a\<lparr>blocks_2d := (blocks_2d a)
                                             (best_storage_id r \<mapsto>
                                                (best_mem r)\<lparr>block_token := Some tok\<rparr>),
                                          free_list_2d :=
                                             removeAll (best_storage_id r) (free_list_2d a)\<rparr>)))
                       else Inr (None, S, a))))"

definition Alloc2D ::
  "addr \<Rightarrow> int \<Rightarrow> store \<Rightarrow> TokenAllocator2D \<Rightarrow> error + (addr \<times> store \<times> TokenAllocator2D)" where
  "Alloc2D prototype sid S a =
     (case GetSize2D (S prototype) of
        Inl e \<Rightarrow> Inl e
      | Inr shp \<Rightarrow>
          Inr (prototype,
               S(prototype := (S prototype)\<lparr>storage_id := sid\<rparr>),
               a\<lparr>blocks_2d := (blocks_2d a)
                    (sid \<mapsto> \<lparr>block_token = Some prototype, block_x = width shp,
                              block_y = height shp\<rparr>)\<rparr>))"

definition CheckForRelease2D :: "addr \<Rightarrow> store \<Rightarrow> TokenAllocator2D \<Rightarrow> error + TokenAllocator2D" where
  "CheckForRelease2D tok S a =
     (if \<not> 0 \<le> storage_id (S tok) then Inl CheckFailed
      else if \<not> 0 \<le> ref_counter (S tok) then Inl CheckFailed
      else if ref_counter (S tok) = 0
        then Inr (a\<lparr>free_list_2d :=
                      (if storage_id (S tok) \<in> set (free_list_2d a) then free_list_2d a
                       else free_list_2d a @ [storage_id (S tok)])\<rparr>)
      else Inr a)"

section \<open>TokenAllocator\<close>

record TokenAllocator =
  storage_ids :: int
  token_1d :: TokenAllocator1D
  token_2d :: TokenAllocator2D

definition Is2DStorage :: "StorageToken \<Rightarrow> bool" where
  "Is2DStorage tok = IsTextureStorage (storage_scope tok)"

definition Alloc ::
  "addr \<Rightarrow> store \<Rightarrow> TokenAllocator \<Rightarrow> error + (addr \<times> store \<times> TokenAllocator)" where
  "Alloc proto S al =
     (if Is2DStorage (S proto) then
        (case Alloc2D proto (storage_ids al) S (token_2d al) of
           Inl e \<Rightarrow> Inl e
         | Inr (tok, S', a2) \<Rightarrow>
             Inr (tok, S', al\<lparr>storage_ids := storage_ids al + 1, token_2d := a2\<rparr>))
      else
        (case Alloc1D proto (storage_ids al) S (token_1d al) of
           Inl e \<Rightarrow> Inl e
         | Inr (tok, S', a1) \<Rightarrow>
             Inr (tok, S', al\<lparr>storage_ids := storage_ids al + 1, token_1d := a1\<rparr>)))"

definition Request ::
  "addr \<Rightarrow> store \<Rightarrow> TokenAllocator \<Rightarrow> error + (addr \<times> store \<times> TokenAllocator)" where
  "Request proto S al =
     (if Is2DStorage (S proto) then
        (case Request2D proto S (token_2d al) of
           Inl e \<Rightarrow> Inl e
         | Inr (Some tok, S', a2) \<Rightarrow> Inr (tok, S', al\<lparr>token_2d := a2\<rparr>)
         | Inr (None, S', a2) \<Rightarrow> Alloc proto S' (al\<lparr>token_2d := a2\<rparr>))
      else
        (case Request1D proto S (token_1d al) of
           Inl e \<Rightarrow> Inl e
         | Inr (Some tok, S', a1) \<Rightarrow> Inr (tok, S', al\<lparr>token_1d := a1\<rparr>)
         | Inr (None, S', a1) \<Rightarrow> Alloc proto S' (al\<lparr>token_1d := a1\<rparr>)))"

definition CheckForRelease :: "addr \<Rightarrow> store \<Rightarrow> TokenAllocator \<Rightarrow> error + TokenAllocator" where
  "CheckForRelease tok S al =
     (if Is2DStorage (S tok) then
        (case CheckForRelease2D tok S (token_2d al) of
           Inl e \<Rightarrow> Inl e
         | Inr a2 \<Rightarrow> Inr (al\<lparr>token_2d := a2\<rparr>))
      else
        (case CheckForRelease1D tok S (token_1d al) of
           Inl e \<Rightarrow> Inl e
         | Inr a1 \<Rightarrow> Inr (al\<lparr>token_1d := a1\<rparr>)))"

definition TokenAllocator_init :: TokenAllocator where
  "TokenAllocator_init =
     \<lparr>storage_ids = 0,
      token_1d = \<lparr>free_1d = [], data_1d = []\<rparr>,
      token_2d = \<lparr>blocks_2d = Map.empty, free_list_2d = []\<rparr>\<rparr>"

section \<open>StorageAllocator::CreateToken\<close>

text \<open>The body of the loop over the prototype tokens of a node.\<close>

definition CreateToken_body ::
  "bool \<Rightarrow> addr \<Rightarrow> store \<Rightarrow> TokenAllocator \<Rightarrow> error + (addr \<times> store \<times> TokenAllocator)" where
  "CreateToken_body can_realloc tok S al =
     (if can_realloc \<and> storage_scope (S tok) = ''global'' then Request tok S al
      else
        (case Alloc tok S al of
           Inl e \<Rightarrow> Inl e
         | Inr (allocated_tok, S1, al1) \<Rightarrow>
             let S2 = S1(allocated_tok :=
                           (S1 allocated_tok)\<lparr>device_type := device_type (S1 tok)\<rparr>);
                 S3 = S2(allocated_tok :=
                           (S2 allocated_tok)\<lparr>ref_counter := ref_counter (S2 allocated_tok) + 1\<rparr>)
             in Inr (allocated_tok, S3, al1)))"

section \<open>Expressions\<close>

text \<open>
  An expression node is identified by its address.  Nodes of different classes are
  different objects, so a reference is the class of the node with a number; a shared
  subexpression occurs in the tree once per use, with the same reference.  Only what the
  planner reads is kept: the checked type of constants and calls, the arguments of a call
  (its operator is never visited), the bound variable of a \<open>let\<close>.
\<close>

datatype kind =
  KConstant | KVar | KCall | KTuple | KTupleGetItem | KLet | KIf | KFunction | KGlobalVar | KOp

type_synonym node_ref = "kind \<times> nat"

datatype expr =
    Constant nat rtype
  | Var nat
  | Call nat rtype "expr list"
  | Tuple nat "expr list"
  | TupleGetItem nat expr int
  | Let nat nat expr expr
  | If nat
  | FunctionE nat
  | GlobalVar nat
  | Op nat

fun ref_of :: "expr \<Rightarrow> node_ref" where
  "ref_of (Constant n ty) = (KConstant, n)"
| "ref_of (Var n) = (KVar, n)"
| "ref_of (Call n ty args) = (KCall, n)"
| "ref_of (Tuple n flds) = (KTuple, n)"
| "ref_of (TupleGetItem n tuple index) = (KTupleGetItem, n)"
| "ref_of (Let n v val bdy) = (KLet, n)"
| "ref_of (If n) = (KIf, n)"
| "ref_of (FunctionE n) = (KFunction, n)"
| "ref_of (GlobalVar n) = (KGlobalVar, n)"
| "ref_of (Op n) = (KOp, n)"

record Function =
  func_params :: "(nat \<times> rtype) list"
  func_body :: expr

section \<open>StorageAllocaBaseVisitor\<close>

text \<open>
  The state every visitor has: \<open>token_map_\<close> (an association list, so that \<open>Plan\<close> can
  iterate over it), the set of nodes already visited, and the arena the tokens live in.
\<close>

record visitor =
  token_map :: "(node_ref \<times> addr list) list"
  visit_counter :: "node_ref set"
  arena :: store

text \<open>
  Modelled from the spec: \<open>ExprVisitor::VisitExpr\<close>, the dispatcher of the expression
  visitor infrastructure, is not part of the sources at hand.  Each pass is memoised per
  node: a node already visited is not visited again, and a node is recorded as visited
  once its \<open>VisitExpr_\<close> has returned.
\<close>

definition memo ::
  "node_ref \<Rightarrow> 'a visitor_scheme \<Rightarrow> error + 'a visitor_scheme \<Rightarrow> error + 'a visitor_scheme" where
  "memo k s r =
     (if k \<in> visit_counter s then Inr s
      else (case r of
              Inl e \<Rightarrow> Inl e
            | Inr s' \<Rightarrow> Inr (s'\<lparr>visit_counter := insert k (visit_counter s')\<rparr>)))"

text \<open>\<open>GetToken\<close> is \<open>find_token\<close> applied to the node and the outcome of its visit.\<close>

definition find_token ::
  "node_ref \<Rightarrow> error + 'a visitor_scheme \<Rightarrow> error + (addr list \<times> 'a visitor_scheme)" where
  "find_token k r =
     (case r of
        Inl e \<Rightarrow> Inl e
      | Inr s \<Rightarrow>
          (case map_of (token_map s) k of
             None \<Rightarrow> Inl CheckFailed
           | Some toks \<Rightarrow> Inr (toks, s)))"

definition set_token :: "node_ref \<Rightarrow> addr list \<Rightarrow> 'a visitor_scheme \<Rightarrow> 'a visitor_scheme" where
  "set_token k toks s = s\<lparr>token_map := AList.update k toks (token_map s)\<rparr>"

text \<open>\<open>for (StorageToken* tok : toks) tok->ref_counter += 1\<close>\<close>

fun incr_all :: "addr list \<Rightarrow> store \<Rightarrow> store" where
  "incr_all [] S = S"
| "incr_all (tok # toks) S =
     incr_all toks (S(tok := (S tok)\<lparr>ref_counter := ref_counter (S tok) + 1\<rparr>))"

text \<open>\<open>VisitExpr_(const TupleGetItemNode*)\<close>, after the tokens of the tuple are known.\<close>

definition tuple_get_item ::
  "node_ref \<Rightarrow> int \<Rightarrow> addr list \<Rightarrow> 'a visitor_scheme \<Rightarrow> error + 'a visitor_scheme" where
  "tuple_get_item k index tok s =
     (if 0 \<le> index \<and> nat index < length tok then Inr (set_token k [tok ! nat index] s)
      else Inl CheckFailed)"

section \<open>StorageAllocaInit: the liveness pass\<close>

record init_visitor = visitor +
  arena_next :: addr

text \<open>\<open>arena_->make<StorageToken>()\<close> followed by the three assignments.\<close>

definition make_token ::
  "TensorTypeNode \<Rightarrow> int \<Rightarrow> string option \<Rightarrow> init_visitor \<Rightarrow> addr \<times> init_visitor" where
  "make_token tt dev scope s =
     (let token = arena_next s;
          t0 = new_StorageToken\<lparr>ttype := Some tt, device_type := dev\<rparr>;
          t1 = (case scope of None \<Rightarrow> t0 | Some sc \<Rightarrow> t0\<lparr>storage_scope := sc\<rparr>)
      in (token, s\<lparr>arena := (arena s)(token := t1), arena_next := Suc token\<rparr>))"

text \<open>The loop over the fields of a tuple type; \<open>i\<close> is the index of the head of the list.\<close>

fun make_tuple_tokens ::
  "rtype list \<Rightarrow> nat \<Rightarrow> int \<Rightarrow> string list option \<Rightarrow> init_visitor \<Rightarrow>
   error + (addr list \<times> init_visitor)" where
  "make_tuple_tokens [] i dev info s = Inr ([], s)"
| "make_tuple_tokens (f # fs) i dev info s =
     (case f of
        TensorType tt \<Rightarrow>
          (case make_token tt dev (map_option (\<lambda>sc. sc ! i) info) s of
             (token, s1) \<Rightarrow>
               (case make_tuple_tokens fs (Suc i) dev info s1 of
                  Inl e \<Rightarrow> Inl e
                | Inr (tokens, s2) \<Rightarrow> Inr (token # tokens, s2)))
      | _ \<Rightarrow> Inl CheckFailed)"

type_synonym device_map = "node_ref \<Rightarrow> int option"
type_synonym storage_map = "node_ref \<Rightarrow> string list option"

definition CreateToken_init ::
  "device_map \<Rightarrow> storage_map \<Rightarrow> node_ref \<Rightarrow> rtype \<Rightarrow> init_visitor \<Rightarrow> error + init_visitor" where
  "CreateToken_init node_device_map node_storage_map op ty s =
     (if map_of (token_map s) op \<noteq> None then Inl CheckFailed
      else
        let device_type = (case node_device_map op of None \<Rightarrow> 0 | Some d \<Rightarrow> d);
            storage_info = node_storage_map op
        in (case ty of
              TupleType flds \<Rightarrow>
                if storage_info \<noteq> None \<and> length flds \<noteq> length (the storage_info)
                then Inl CheckFailed
                else (case make_tuple_tokens flds 0 device_type storage_info s of
                        Inl e \<Rightarrow> Inl e
                      | Inr (tokens, s1) \<Rightarrow> Inr (set_token op tokens s1))
            | TensorType tt \<Rightarrow>
                if storage_info = Some [] then Inl CheckFailed
                else (case make_token tt device_type (map_option hd storage_info) s of
                        (token, s1) \<Rightarrow> Inr (set_token op [token] s1))
            | OtherType \<Rightarrow> Inl CheckFailed))"

fun VisitExpr_init ::
  "device_map \<Rightarrow> storage_map \<Rightarrow> expr \<Rightarrow> init_visitor \<Rightarrow> error + init_visitor"
and VisitArgs_init ::
  "device_map \<Rightarrow> storage_map \<Rightarrow> expr list \<Rightarrow> init_visitor \<Rightarrow> error + init_visitor"
and VisitFields_init ::
  "device_map \<Rightarrow> storage_map \<Rightarrow> expr list \<Rightarrow> init_visitor \<Rightarrow>
   error + (addr list \<times> init_visitor)" where
  "VisitExpr_init dm sm (Constant n ty) s =
     memo (KConstant, n) s (CreateToken_init dm sm (KConstant, n) ty s)"
| "VisitExpr_init dm sm (Var n) s = memo (KVar, n) s (Inr s)"
| "VisitExpr_init dm sm (FunctionE n) s = memo (KFunction, n) s (Inr s)"
| "VisitExpr_init dm sm (GlobalVar n) s = memo (KGlobalVar, n) s (Inr s)"
| "VisitExpr_init dm sm (Op n) s = memo (KOp, n) s (Inr s)"
| "VisitExpr_init dm sm (Tuple n flds) s =
     memo (KTuple, n) s
       (case VisitFields_init dm sm flds s of
          Inl e \<Rightarrow> Inl e
        | Inr (toks, s1) \<Rightarrow> Inr (set_token (KTuple, n) toks s1))"
| "VisitExpr_init dm sm (TupleGetItem n tuple index) s =
     memo (KTupleGetItem, n) s
       (case find_token (ref_of tuple) (VisitExpr_init dm sm tuple s) of
          Inl e \<Rightarrow> Inl e
        | Inr (tok, s1) \<Rightarrow> tuple_get_item (KTupleGetItem, n) index tok s1)"
| "VisitExpr_init dm sm (If n) s = memo (KIf, n) s (Inl IfNotSupported)"
| "VisitExpr_init dm sm (Let n v val bdy) s =
     memo (KLet, n) s
       (case find_token (ref_of val) (VisitExpr_init dm sm val s) of
          Inl e \<Rightarrow> Inl e
        | Inr (token, s1) \<Rightarrow>
            (case find_token (ref_of bdy) (VisitExpr_init dm sm bdy (set_token (KVar, v) token s1)) of
               Inl e \<Rightarrow> Inl e
             | Inr (toks, s2) \<Rightarrow> Inr (set_token (KLet, n) toks s2)))"
| "VisitExpr_init dm sm (Call n ty args) s =
     memo (KCall, n) s
       (case CreateToken_init dm sm (KCall, n) ty s of
          Inl e \<Rightarrow> Inl e
        | Inr s1 \<Rightarrow> VisitArgs_init dm sm args s1)"
| "VisitArgs_init dm sm [] s = Inr s"
| "VisitArgs_init dm sm (arg # args) s =
     (case find_token (ref_of arg) (VisitExpr_init dm sm arg s) of
        Inl e \<Rightarrow> Inl e
      | Inr (toks, s1) \<Rightarrow> VisitArgs_init dm sm args (s1\<lparr>arena := incr_all toks (arena s1)\<rparr>))"
| "VisitFields_init dm sm [] s = Inr ([], s)"
| "VisitFields_init dm sm (fld # flds) s =
     (case find_token (ref_of fld) (VisitExpr_init dm sm fld s) of
        Inl e \<Rightarrow> Inl e
      | Inr (tokens, s1) \<Rightarrow>
          (case VisitFields_init dm sm flds s1 of
             Inl e \<Rightarrow> Inl e
           | Inr (rest, s2) \<Rightarrow> Inr (tokens @ rest, s2)))"

fun CreateParams_init ::
  "device_map \<Rightarrow> storage_map \<Rightarrow> (nat \<times> rtype) list \<Rightarrow> init_visitor \<Rightarrow> error + init_visitor" where
  "CreateParams_init dm sm [] s = Inr s"
| "CreateParams_init dm sm (param # params) s =
     (case CreateToken_init dm sm (KVar, fst param) (snd param) s of
        Inl e \<Rightarrow> Inl e
      | Inr s1 \<Rightarrow> CreateParams_init dm sm params s1)"

definition Run_init ::
  "device_map \<Rightarrow> storage_map \<Rightarrow> Function \<Rightarrow> init_visitor \<Rightarrow> error + init_visitor" where
  "Run_init dm sm func s =
     (case CreateParams_init dm sm (func_params func) s of
        Inl e \<Rightarrow> Inl e
      | Inr s1 \<Rightarrow>
          (case find_token (ref_of (func_body func)) (VisitExpr_init dm sm (func_body func) s1) of
             Inl e \<Rightarrow> Inl e
           | Inr (toks, s2) \<Rightarrow> Inr (s2\<lparr>arena := incr_all toks (arena s2)\<rparr>)))"

definition init_visitor_new :: init_visitor where
  "init_visitor_new =
     \<lparr>token_map = [], visit_counter = {}, arena = (\<lambda>_. new_StorageToken), arena_next = 0\<rparr>"

text \<open>
  \<open>GetInitTokenMap\<close>: the device map and the storage map come from \<open>CollectDeviceInfo\<close> and
  from the hook \<open>CollectStorageInfo\<close> looks up, and are parameters here.
\<close>

definition GetInitTokenMap ::
  "device_map \<Rightarrow> storage_map \<Rightarrow> Function \<Rightarrow> error + init_visitor" where
  "GetInitTokenMap dm sm func = Run_init dm sm func init_visitor_new"

section \<open>StorageAllocator: the assignment pass\<close>

text \<open>
  \<open>history\<close> is a history variable: it records, in order, which branch \<open>CreateToken\<close>
  took for each token and every call of \<open>CheckForRelease\<close> with the reference count the
  token had at the call.  The planner never reads it.
\<close>

datatype event =
    Fresh addr
  | Requested addr addr
  | Released addr int

record alloc_visitor = visitor +
  allocator :: TokenAllocator
  history :: "event list"

type_synonym prototype_map = "(node_ref \<times> addr list) list"

text \<open>The loop of \<open>CreateToken\<close> over the prototype tokens of the node.\<close>

fun CreateToken_loop ::
  "bool \<Rightarrow> addr list \<Rightarrow> alloc_visitor \<Rightarrow> error + (addr list \<times> alloc_visitor)" where
  "CreateToken_loop can_realloc [] s = Inr ([], s)"
| "CreateToken_loop can_realloc (tok # toks) s =
     (case CreateToken_body can_realloc tok (arena s) (allocator s) of
        Inl e \<Rightarrow> Inl e
      | Inr (t, S1, al1) \<Rightarrow>
          (case CreateToken_loop can_realloc toks
                  (s\<lparr>arena := S1, allocator := al1,
                     history := history s @
                       [if can_realloc \<and> storage_scope (arena s tok) = ''global''
                        then Requested tok t else Fresh t]\<rparr>) of
             Inl e \<Rightarrow> Inl e
           | Inr (ts, s2) \<Rightarrow> Inr (t # ts, s2)))"

definition CreateToken_alloc ::
  "prototype_map \<Rightarrow> node_ref \<Rightarrow> bool \<Rightarrow> alloc_visitor \<Rightarrow> error + alloc_visitor" where
  "CreateToken_alloc prototype op can_realloc s =
     (if map_of (token_map s) op \<noteq> None then Inl CheckFailed
      else (case map_of prototype op of
              None \<Rightarrow> Inl CheckFailed
            | Some protos \<Rightarrow>
                (case CreateToken_loop can_realloc protos s of
                   Inl e \<Rightarrow> Inl e
                 | Inr (tokens, s1) \<Rightarrow> Inr (set_token op tokens s1))))"

text \<open>\<open>for (StorageToken* tok : token_map_.at(op)) allocator_.CheckForRelease(tok)\<close>\<close>

fun CheckForRelease_all :: "addr list \<Rightarrow> alloc_visitor \<Rightarrow> error + alloc_visitor" where
  "CheckForRelease_all [] s = Inr s"
| "CheckForRelease_all (tok # toks) s =
     (case CheckForRelease tok (arena s) (allocator s) of
        Inl e \<Rightarrow> Inl e
      | Inr al \<Rightarrow>
          CheckForRelease_all toks
            (s\<lparr>allocator := al,
               history := history s @ [Released tok (ref_counter (arena s tok))]\<rparr>))"

text \<open>
  \<open>for (StorageToken* tok : args) { tok->ref_counter -= 1; allocator_.CheckForRelease(tok); }\<close>
\<close>

fun release_args :: "addr list \<Rightarrow> alloc_visitor \<Rightarrow> error + alloc_visitor" where
  "release_args [] s = Inr s"
| "release_args (tok # toks) s =
     (let S1 = (arena s)(tok := (arena s tok)\<lparr>ref_counter := ref_counter (arena s tok) - 1\<rparr>)
      in (case CheckForRelease tok S1 (allocator s) of
            Inl e \<Rightarrow> Inl e
          | Inr al \<Rightarrow>
              release_args toks
                (s\<lparr>arena := S1, allocator := al,
                   history := history s @ [Released tok (ref_counter (S1 tok))]\<rparr>)))"

text \<open>
  \<open>GetTokens_alloc\<close> is the loop that concatenates the tokens of a list of expressions:
  the fields of a tuple, and the arguments of a call.
\<close>

fun VisitExpr_alloc :: "prototype_map \<Rightarrow> expr \<Rightarrow> alloc_visitor \<Rightarrow> error + alloc_visitor"
and GetTokens_alloc ::
  "prototype_map \<Rightarrow> expr list \<Rightarrow> alloc_visitor \<Rightarrow> error + (addr list \<times> alloc_visitor)" where
  "VisitExpr_alloc P (Constant n ty) s =
     memo (KConstant, n) s (CreateToken_alloc P (KConstant, n) False s)"
| "VisitExpr_alloc P (Var n) s = memo (KVar, n) s (Inr s)"
| "VisitExpr_alloc P (FunctionE n) s = memo (KFunction, n) s (Inr s)"
| "VisitExpr_alloc P (GlobalVar n) s = memo (KGlobalVar, n) s (Inr s)"
| "VisitExpr_alloc P (Op n) s = memo (KOp, n) s (Inr s)"
| "VisitExpr_alloc P (Tuple n flds) s =
     memo (KTuple, n) s
       (case GetTokens_alloc P flds s of
          Inl e \<Rightarrow> Inl e
        | Inr (toks, s1) \<Rightarrow> Inr (set_token (KTuple, n) toks s1))"
| "VisitExpr_alloc P (TupleGetItem n tuple index) s =
     memo (KTupleGetItem, n) s
       (case find_token (ref_of tuple) (VisitExpr_alloc P tuple s) of
          Inl e \<Rightarrow> Inl e
        | Inr (tok, s1) \<Rightarrow> tuple_get_item (KTupleGetItem, n) index tok s1)"
| "VisitExpr_alloc P (If n) s = memo (KIf, n) s (Inl IfNotSupported)"
| "VisitExpr_alloc P (Let n v val bdy) s =
     memo (KLet, n) s
       (case find_token (ref_of val) (VisitExpr_alloc P val s) of
          Inl e \<Rightarrow> Inl e
        | Inr (token, s1) \<Rightarrow>
            (case find_token (ref_of bdy) (VisitExpr_alloc P bdy (set_token (KVar, v) token s1)) of
               Inl e \<Rightarrow> Inl e
             | Inr (toks, s2) \<Rightarrow> Inr (set_token (KLet, n) toks s2)))"
| "VisitExpr_alloc P (Call n ty args) s =
     memo (KCall, n) s
       (case GetTokens_alloc P args s of
          Inl e \<Rightarrow> Inl e
        | Inr (args_toks, s1) \<Rightarrow>
            (case CreateToken_alloc P (KCall, n) True s1 of
               Inl e \<Rightarrow> Inl e
             | Inr s2 \<Rightarrow>
                 (case map_of (token_map s2) (KCall, n) of
                    None \<Rightarrow> Inl CheckFailed
                  | Some toks \<Rightarrow>
                      (case CheckForRelease_all toks s2 of
                         Inl e \<Rightarrow> Inl e
                       | Inr s3 \<Rightarrow> release_args args_toks s3))))"
| "GetTokens_alloc P [] s = Inr ([], s)"
| "GetTokens_alloc P (x # xs) s =
     (case find_token (ref_of x) (VisitExpr_alloc P x s) of
        Inl e \<Rightarrow> Inl e
      | Inr (tokens, s1) \<Rightarrow>
          (case GetTokens_alloc P xs s1 of
             Inl e \<Rightarrow> Inl e
           | Inr (rest, s2) \<Rightarrow> Inr (tokens @ rest, s2)))"

fun CreateParams_alloc ::
  "prototype_map \<Rightarrow> (nat \<times> rtype) list \<Rightarrow> alloc_visitor \<Rightarrow> error + alloc_visitor" where
  "CreateParams_alloc P [] s = Inr s"
| "CreateParams_alloc P (param # params) s =
     (case CreateToken_alloc P (KVar, fst param) False s of
        Inl e \<Rightarrow> Inl e
      | Inr s1 \<Rightarrow> CreateParams_alloc P params s1)"

definition Run_alloc :: "prototype_map \<Rightarrow> Function \<Rightarrow> alloc_visitor \<Rightarrow> error + alloc_visitor" where
  "Run_alloc P func s =
     (case CreateParams_alloc P (func_params func) s of
        Inl e \<Rightarrow> Inl e
      | Inr s1 \<Rightarrow>
          (case find_token (ref_of (func_body func)) (VisitExpr_alloc P (func_body func) s1) of
             Inl e \<Rightarrow> Inl e
           | Inr (toks, s2) \<Rightarrow> Inr (s2\<lparr>arena := incr_all toks (arena s2)\<rparr>)))"

definition alloc_visitor_new :: "store \<Rightarrow> alloc_visitor" where
  "alloc_visitor_new S =
     \<lparr>token_map = [], visit_counter = {}, arena = S, allocator = TokenAllocator_init,
      history = []\<rparr>"

section \<open>StorageAllocator::Plan\<close>

type_synonym plan_row = "int list \<times> int list \<times> string list"

record plan_vars =
  smap :: "(node_ref \<times> plan_row) list"
  num_annotated_nodes :: nat
  num_nodes :: nat

text \<open>The inner loop, over the tokens of one entry of \<open>token_map_\<close>.\<close>

fun Plan_tokens :: "store \<Rightarrow> addr list \<Rightarrow> plan_row \<times> nat \<times> nat \<Rightarrow> plan_row \<times> nat \<times> nat" where
  "Plan_tokens S [] acc = acc"
| "Plan_tokens S (tok # toks) ((sids, device_types, scopes), annotated, nodes) =
     Plan_tokens S toks
       ((sids @ [storage_id (S tok)], device_types @ [device_type (S tok)],
         scopes @ [storage_scope (S tok)]),
        (if device_type (S tok) \<noteq> 0 then annotated + 1 else annotated), nodes + 1)"

text \<open>
  The outer loop.  The keys of \<open>token_map_\<close> are distinct, so \<open>smap.Set\<close> adds an entry.
\<close>

fun Plan_loop :: "store \<Rightarrow> (node_ref \<times> addr list) list \<Rightarrow> plan_vars \<Rightarrow> plan_vars" where
  "Plan_loop S [] r = r"
| "Plan_loop S (kv # kvs) r =
     (case Plan_tokens S (snd kv) (([], [], []), num_annotated_nodes r, num_nodes r) of
        (row, annotated, nodes) \<Rightarrow>
          Plan_loop S kvs
            \<lparr>smap = smap r @ [(fst kv, row)], num_annotated_nodes = annotated,
             num_nodes = nodes\<rparr>)"

definition Plan_serialize ::
  "store \<Rightarrow> (node_ref \<times> addr list) list \<Rightarrow> error + (node_ref \<times> plan_row) list" where
  "Plan_serialize S tm =
     (let r = Plan_loop S tm \<lparr>smap = [], num_annotated_nodes = 0, num_nodes = 0\<rparr>
      in if num_annotated_nodes r \<noteq> 0 \<and> num_annotated_nodes r \<noteq> num_nodes r
         then Inl (MixedDeviceAnnotation (num_annotated_nodes r) (num_nodes r))
         else Inr (smap r))"

definition Plan ::
  "device_map \<Rightarrow> storage_map \<Rightarrow> Function \<Rightarrow> error + (node_ref \<times> plan_row) list" where
  "Plan dm sm func =
     (case GetInitTokenMap dm sm func of
        Inl e \<Rightarrow> Inl e
      | Inr si \<Rightarrow>
          (case Run_alloc (token_map si) func (alloc_visitor_new (arena si)) of
             Inl e \<Rightarrow> Inl e
           | Inr s \<Rightarrow> Plan_serialize (arena s) (token_map s)))"

section \<open>Example states\<close>

definition float32 :: DataType where
  "float32 = \<lparr>code = 2, bits = 32, lanes = 1\<rparr>"

definition int8 :: DataType where
  "int8 = \<lparr>code = 0, bits = 8, lanes = 1\<rparr>"

definition tensor_token :: "int list \<Rightarrow> DataType \<Rightarrow> string \<Rightarrow> int \<Rightarrow> int \<Rightarrow> StorageToken" where
  "tensor_token ds dt scope sid rc =
     \<lparr>ref_counter = rc, max_bytes = 0, ttype = Some \<lparr>shape = map ConstDim ds, dtype = dt\<rparr>,
      device_type = 0, storage_id = sid, storage_scope = scope\<rparr>"

text \<open>
  A released \<open>float32\<close> texture block of shape \<open>(1,64,64,4)\<close> and a prototype of shape
  \<open>(1,32,128,4)\<close>.
\<close>

definition texture_chain_store :: store where
  "texture_chain_store =
     (\<lambda>_. new_StorageToken)
       (0 := tensor_token [1, 64, 64, 4] float32 ''texture'' 0 0,
        3 := tensor_token [1, 32, 128, 4] float32 ''texture'' (- 1) 1)"

definition texture_chain_2d :: TokenAllocator2D where
  "texture_chain_2d =
     \<lparr>blocks_2d = Map.empty(0 \<mapsto> \<lparr>block_token = Some 0, block_x = 64, block_y = 64\<rparr>),
      free_list_2d = [0]\<rparr>"

definition texture_chain_allocator :: TokenAllocator where
  "texture_chain_allocator =
     \<lparr>storage_ids = 1, token_1d = \<lparr>free_1d = [], data_1d = []\<rparr>, token_2d = texture_chain_2d\<rparr>"

text \<open>
  Two released texture blocks, \<open>10 \<times> 10\<close> and \<open>1 \<times> 1\<close>, and a prototype that flattens
  to \<open>2 \<times> 2\<close>.
\<close>

definition expansion_store :: store where
  "expansion_store =
     (\<lambda>_. new_StorageToken)
       (0 := tensor_token [1, 10, 10, 4] float32 ''texture'' 0 0,
        1 := tensor_token [1, 1, 1, 4] float32 ''texture'' 1 0,
        2 := tensor_token [1, 2, 2, 4] float32 ''texture'' (- 1) 1)"

definition expansion_2d :: TokenAllocator2D where
  "expansion_2d =
     \<lparr>blocks_2d = Map.empty(0 \<mapsto> \<lparr>block_token = Some 0, block_x = 10, block_y = 10\<rparr>,
                             1 \<mapsto> \<lparr>block_token = Some 1, block_x = 1, block_y = 1\<rparr>),
      free_list_2d = [0, 1]\<rparr>"

text \<open>A released one-byte linear buffer and a prototype of 31 bytes.\<close>

definition fuzzy_store :: store where
  "fuzzy_store =
     (\<lambda>_. new_StorageToken)
       (0 := (tensor_token [1] int8 ''global'' 0 0)\<lparr>max_bytes := 1\<rparr>,
        2 := tensor_token [31] int8 ''global'' (- 1) 1)"

definition fuzzy_1d :: TokenAllocator1D where
  "fuzzy_1d = \<lparr>free_1d = [(1, 0)], data_1d = [0]\<rparr>"

definition fuzzy_allocator :: TokenAllocator where
  "fuzzy_allocator =
     \<lparr>storage_ids = 1, token_1d = fuzzy_1d,
      token_2d = \<lparr>blocks_2d = Map.empty, free_list_2d = []\<rparr>\<rparr>"

text \<open>
  The chain \<open>a = op(x); b = op(a); c = op(b)\<close> over vectors of ten bytes, with \<open>c\<close> the
  output, and a single call whose result is annotated with a device.
\<close>

definition vec10 :: rtype where
  "vec10 = TensorType \<lparr>shape = [ConstDim 10], dtype = int8\<rparr>"

definition chain_func :: Function where
  "chain_func = \<lparr>func_params = [(0, vec10)],
     func_body = Call 4 vec10 [Call 3 vec10 [Call 2 vec10 [Var 0]]]\<rparr>"

definition unary_func :: Function where
  "unary_func = \<lparr>func_params = [(0, vec10)], func_body = Call 2 vec10 [Var 0]\<rparr>"

definition call_on_device :: device_map where
  "call_on_device = (\<lambda>_. None)((KCall, 2) \<mapsto> 1)"

definition no_info :: "node_ref \<Rightarrow> 'a option" where
  "no_info = (\<lambda>_. None)"

section \<open>Invariants used in the proofs\<close>

text \<open>
  The state of the 2D search after some free blocks \<open>ids\<close> have been considered: the
  best block so far is one of them, has the requester's dtype, and \<open>min_added_size\<close> and
  \<open>best_mem\<close> were computed from it.
\<close>

definition candidate_of ::
  "store \<Rightarrow> (int \<Rightarrow> MemBlock option) \<Rightarrow> DataType \<Rightarrow> Texture2DShape \<Rightarrow> int list \<Rightarrow>
   search2d \<Rightarrow> bool" where
  "candidate_of S blocks dt shp ids r =
     (\<exists>b t tt. best_storage_id r \<in> set ids \<and> blocks (best_storage_id r) = Some b \<and>
        block_token b = Some t \<and> ttype (S t) = Some tt \<and> dtype tt = dt \<and>
        min_added_size r =
          max (block_x b) (width shp) * max (block_y b) (height shp) - block_x b * block_y b \<and>
        block_x (best_mem r) = max (block_x b) (width shp) \<and>
        block_y (best_mem r) = max (block_y b) (height shp))"

text \<open>The triple \<open>Plan\<close> builds for the tokens of one node.\<close>

definition plan_row_of :: "store \<Rightarrow> addr list \<Rightarrow> plan_row" where
  "plan_row_of S toks =
     (map (\<lambda>t. storage_id (S t)) toks, map (\<lambda>t. device_type (S t)) toks,
      map (\<lambda>t. storage_scope (S t)) toks)"

text \<open>Two stores agree on the fields of every token that the liveness pass fills in.\<close>

definition static_eq :: "store \<Rightarrow> store \<Rightarrow> bool" where
  "static_eq S S' =
     (\<forall>p. ttype (S' p) = ttype (S p) \<and> device_type (S' p) = device_type (S p) \<and>
          storage_scope (S' p) = storage_scope (S p))"

section \<open>Texture flattening\<close>

lemma texture_not_global: "IsTextureStorage c \<Longrightarrow> c \<noteq> ''global''"
  by (auto simp: IsTextureStorage_def)

lemma global_not_texture: "\<not> IsTextureStorage ''global''"
  by (simp add: IsTextureStorage_def)

lemma texture_is_texture: "IsTextureStorage ''texture''"
  by (simp add: IsTextureStorage_def)

text \<open>
  Claim C6, as stated: shape \<open>(1,64,64,4)\<close> under scope \<open>"texture"\<close> flattens to width
  \<open>64 * 4 = 256\<close> and height \<open>64\<close>, and shape \<open>(1,32,128,4)\<close> to width \<open>128 * 4 = 512\<close>
  and height \<open>32\<close>.  The code does not produce these requests: the loop of
  \<open>ApplyTexture2DFlattening\<close> stops before the last axis.
\<close>

theorem GetSize2D_width_excludes_channel:
  "GetSize2D (tensor_token [1, 64, 64, 4] float32 ''texture'' (- 1) 0)
     \<noteq> Inr \<lparr>width = 64 * 4, height = 1 * 64, channel = 4\<rparr> \<and>
   GetSize2D (tensor_token [1, 32, 128, 4] float32 ''texture'' (- 1) 0)
     \<noteq> Inr \<lparr>width = 128 * 4, height = 1 * 32, channel = 4\<rparr>"
  by (simp add: GetSize2D_def DefaultTextureLayoutSeparator_def size_max_def
                ApplyTexture2DFlattening_def tensor_token_def)

text \<open>
  Claim C6, amended: for shape \<open>(1,64,64,4)\<close> under scope \<open>"texture"\<close> the axis separator
  is 2 and the request is width 64, height \<open>1 * 64 = 64\<close>, with the last axis 4 carried
  as the channel; for shape \<open>(1,32,128,4)\<close> it is width 128, height \<open>1 * 32 = 32\<close>,
  channel 4.  This holds for every token with that shape and scope.
\<close>

theorem GetSize2D_texture_scenario:
  "DefaultTextureLayoutSeparator 4 ''texture'' = Inr 2 \<and>
   GetSize2D (tok\<lparr>ttype := Some \<lparr>shape = map ConstDim [1, 64, 64, 4], dtype = dt\<rparr>,
                   storage_scope := ''texture''\<rparr>)
     = Inr \<lparr>width = 64, height = 1 * 64, channel = 4\<rparr> \<and>
   GetSize2D (tok\<lparr>ttype := Some \<lparr>shape = map ConstDim [1, 32, 128, 4], dtype = dt\<rparr>,
                   storage_scope := ''texture''\<rparr>)
     = Inr \<lparr>width = 128, height = 1 * 32, channel = 4\<rparr>"
  by (simp add: GetSize2D_def DefaultTextureLayoutSeparator_def size_max_def
                ApplyTexture2DFlattening_def)

text \<open>
  Claim C7, as stated: every scope that contains \<open>"texture"\<close> and is neither
  \<open>"texture:weight"\<close> nor \<open>"texture:nhwc"\<close> uses the separator \<open>r - 2\<close>.  The scope
  \<open>"texture:custom"\<close> is a texture scope, and \<open>DefaultTextureLayoutSeparator\<close> rejects it.
\<close>

theorem DefaultTextureLayoutSeparator_custom_fatal:
  "IsTextureStorage ''texture:custom'' \<and>
   DefaultTextureLayoutSeparator 4 ''texture'' = Inr 2 \<and>
   DefaultTextureLayoutSeparator 4 ''texture:custom'' \<noteq> Inr (4 - 2) \<and>
   DefaultTextureLayoutSeparator 4 ''texture:custom'' = Inl UnknownTextureConvention"
  by (simp add: DefaultTextureLayoutSeparator_def IsTextureStorage_def size_max_def)

lemma size_wrap_sub2: "2 \<le> r \<Longrightarrow> r < size_max \<Longrightarrow> (r + size_max - 2) mod size_max = r - 2"
proof -
  assume h: "2 \<le> r" "r < size_max"
  then have e: "r + size_max - 2 = (r - 2) + size_max" by arith
  have l: "r - 2 < size_max" using h by arith
  have "((r - 2) + size_max) mod size_max = r - 2" using l by simp
  then show ?thesis by (simp only: e)
qed

lemma separator_unknown:
  "c \<noteq> ''texture'' \<Longrightarrow> c \<noteq> ''texture:weight'' \<Longrightarrow> c \<noteq> ''texture:nhwc'' \<Longrightarrow>
   DefaultTextureLayoutSeparator r c = Inl UnknownTextureConvention"
  by (simp add: DefaultTextureLayoutSeparator_def)

text \<open>
  Claim C7, amended: only the scope \<open>"texture"\<close> itself uses the separator \<open>r - 2\<close> (for a
  rank \<open>r \<ge> 2\<close>), \<open>"texture:weight"\<close> uses 1 and \<open>"texture:nhwc"\<close> uses 2; every other
  scope string, the other strings containing \<open>"texture"\<close> included, is a fatal error
  (unknown texture lowering convention), so \<open>GetSize2D\<close> fails for a token of such a scope.
\<close>

theorem DefaultTextureLayoutSeparator_conventions:
  "(2 \<le> r \<and> r < size_max \<longrightarrow> DefaultTextureLayoutSeparator r ''texture'' = Inr (r - 2)) \<and>
   DefaultTextureLayoutSeparator r ''texture:weight'' = Inr 1 \<and>
   DefaultTextureLayoutSeparator r ''texture:nhwc'' = Inr 2 \<and>
   (c \<noteq> ''texture'' \<and> c \<noteq> ''texture:weight'' \<and> c \<noteq> ''texture:nhwc'' \<longrightarrow>
      DefaultTextureLayoutSeparator r c = Inl UnknownTextureConvention \<and>
      (\<forall>tok. storage_scope tok = c \<longrightarrow> (\<exists>e. GetSize2D tok = Inl e)))"
proof (intro conjI impI allI)
  assume "2 \<le> r \<and> r < size_max"
  then show "DefaultTextureLayoutSeparator r ''texture'' = Inr (r - 2)"
    by (simp add: DefaultTextureLayoutSeparator_def size_wrap_sub2)
next
  show "DefaultTextureLayoutSeparator r ''texture:weight'' = Inr 1"
    by (simp add: DefaultTextureLayoutSeparator_def)
next
  show "DefaultTextureLayoutSeparator r ''texture:nhwc'' = Inr 2"
    by (simp add: DefaultTextureLayoutSeparator_def)
next
  assume "c \<noteq> ''texture'' \<and> c \<noteq> ''texture:weight'' \<and> c \<noteq> ''texture:nhwc''"
  then show "DefaultTextureLayoutSeparator r c = Inl UnknownTextureConvention"
    by (blast intro: separator_unknown)
next
  fix tok :: StorageToken
  assume h: "c \<noteq> ''texture'' \<and> c \<noteq> ''texture:weight'' \<and> c \<noteq> ''texture:nhwc''"
    and c: "storage_scope tok = c"
  from h have h1: "c \<noteq> ''texture''" and h2: "c \<noteq> ''texture:weight''"
    and h3: "c \<noteq> ''texture:nhwc''"
    by blast+
  show "\<exists>e. GetSize2D tok = Inl e"
  proof (cases "ttype tok")
    case None
    then show ?thesis by (simp add: GetSize2D_def)
  next
    case (Some tt)
    have "DefaultTextureLayoutSeparator (length (shape tt)) (storage_scope tok)
            = Inl UnknownTextureConvention"
      unfolding c by (rule separator_unknown [OF h1 h2 h3])
    then have "GetSize2D tok = Inl UnknownTextureConvention"
      unfolding GetSize2D_def Some by simp
    then show ?thesis by (rule exI)
  qed
qed

theorem DefaultTextureLayoutSeparator_conventions_witness:
  "DefaultTextureLayoutSeparator 4 ''texture'' = Inr 2 \<and>
   DefaultTextureLayoutSeparator 4 ''texture:custom'' = Inl UnknownTextureConvention \<and>
   (\<exists>e. GetSize2D (new_StorageToken\<lparr>storage_scope := ''texture:custom''\<rparr>) = Inl e)"
proof -
  have n: "''texture:custom'' \<noteq> ''texture'' \<and> ''texture:custom'' \<noteq> ''texture:weight'' \<and>
           ''texture:custom'' \<noteq> ''texture:nhwc''" by simp
  have r: "(2::nat) \<le> 4 \<and> 4 < size_max" by (simp add: size_max_def)
  note t = DefaultTextureLayoutSeparator_conventions [of 4 "''texture:custom''"]
  from t r have a: "DefaultTextureLayoutSeparator 4 ''texture'' = Inr 2" by simp
  from t n have b: "DefaultTextureLayoutSeparator 4 ''texture:custom'' = Inl UnknownTextureConvention"
    by blast
  from t n have "\<forall>tok. storage_scope tok = ''texture:custom'' \<longrightarrow> (\<exists>e. GetSize2D tok = Inl e)"
    by blast
  then have c: "\<exists>e. GetSize2D (new_StorageToken\<lparr>storage_scope := ''texture:custom''\<rparr>) = Inl e"
    by simp
  from a b c show ?thesis by blast
qed

section \<open>TokenAllocator2D::Request\<close>

lemma Request2D_body_inv:
  assumes "Request2D_body S blocks dt shp req fid r = Inr r'"
    and "r = search2d_init \<or> candidate_of S blocks dt shp ids r"
  shows "r' = search2d_init \<or> candidate_of S blocks dt shp (fid # ids) r'"
  using assms
  by (auto simp: Request2D_body_def candidate_of_def Let_def
           split: option.splits if_splits)

lemma candidate_of_mono:
  "candidate_of S blocks dt shp ids r \<Longrightarrow> set ids \<subseteq> set ids' \<Longrightarrow> candidate_of S blocks dt shp ids' r"
  by (auto simp: candidate_of_def)

lemma Request2D_loop_inv:
  assumes "Request2D_loop S blocks dt shp req ids r = Inr r'"
    and "r = search2d_init \<or> candidate_of S blocks dt shp seen r"
  shows "r' = search2d_init \<or> candidate_of S blocks dt shp (seen @ ids) r'"
  using assms
proof (induction ids arbitrary: r seen)
  case Nil
  then show ?case by simp
next
  case (Cons fid ids)
  from Cons.prems(1) obtain r1 where
    b: "Request2D_body S blocks dt shp req fid r = Inr r1" and
    l: "Request2D_loop S blocks dt shp req ids r1 = Inr r'"
    by (auto split: sum.splits)
  from Request2D_body_inv [OF b Cons.prems(2)]
  have "r1 = search2d_init \<or> candidate_of S blocks dt shp (seen @ [fid]) r1"
    by (auto intro: candidate_of_mono)
  from Cons.IH [OF l this] show ?case by simp
qed

text \<open>
  Claim C3: whenever \<open>TokenAllocator2D::Request\<close> returns a token, that token belongs to
  a block of the free list whose tensor dtype equals the requester's dtype, and the area
  added to the block, \<open>max(x,w) * max(y,h) - x * y\<close>, is at most the requested area
  \<open>w * h\<close>; the block is updated to \<open>(max(x,w), max(y,h))\<close>.  The keys of \<open>blocks_\<close> are
  storage ids, which are never negative.
\<close>

theorem Request2D_reuse_dtype_and_growth:
  assumes req: "Request2D prototype S a = Inr (Some tok, S', a')"
    and ids: "\<forall>sid b. blocks_2d a sid = Some b \<longrightarrow> 0 \<le> sid"
  shows "\<exists>sid b tt ptt shp.
           sid \<in> set (free_list_2d a) \<and> blocks_2d a sid = Some b \<and> block_token b = Some tok \<and>
           ttype (S tok) = Some tt \<and> ttype (S prototype) = Some ptt \<and> dtype tt = dtype ptt \<and>
           GetSize2D (S prototype) = Inr shp \<and>
           max (block_x b) (width shp) * max (block_y b) (height shp) - block_x b * block_y b
             \<le> width shp * height shp \<and>
           blocks_2d a' sid =
             Some \<lparr>block_token = Some tok, block_x = max (block_x b) (width shp),
                   block_y = max (block_y b) (height shp)\<rparr>"
proof -
  from req obtain shp ptt r where
    shp: "GetSize2D (S prototype) = Inr shp" and
    ptt: "ttype (S prototype) = Some ptt" and
    loop: "Request2D_loop S (blocks_2d a) (dtype ptt) shp (height shp * width shp)
             (free_list_2d a) search2d_init = Inr r" and
    acc: "min_added_size r \<le> height shp * width shp"
    by (auto simp: Request2D_def Let_def split: sum.splits option.splits if_splits)
  from req shp ptt loop acc obtain b where
    b: "blocks_2d a (best_storage_id r) = Some b" and
    t: "block_token b = Some tok" and
    a': "a' = a\<lparr>blocks_2d := (blocks_2d a)
                    (best_storage_id r \<mapsto> (best_mem r)\<lparr>block_token := Some tok\<rparr>),
                 free_list_2d := removeAll (best_storage_id r) (free_list_2d a)\<rparr>"
    by (auto simp: Request2D_def Let_def split: sum.splits option.splits if_splits)
  have "r \<noteq> search2d_init"
  proof
    assume "r = search2d_init"
    then have "best_storage_id r = - 1" by (simp add: search2d_init_def)
    with b ids show False by force
  qed
  with Request2D_loop_inv [OF loop, of "[]"]
  have "candidate_of S (blocks_2d a) (dtype ptt) shp (free_list_2d a) r" by simp
  with b t obtain tt where
    "best_storage_id r \<in> set (free_list_2d a)" "ttype (S tok) = Some tt" "dtype tt = dtype ptt"
    "min_added_size r =
       max (block_x b) (width shp) * max (block_y b) (height shp) - block_x b * block_y b"
    "block_x (best_mem r) = max (block_x b) (width shp)"
    "block_y (best_mem r) = max (block_y b) (height shp)"
    by (auto simp: candidate_of_def)
  with b t shp ptt acc a' show ?thesis
    by (intro exI [of _ "best_storage_id r"] exI [of _ b] exI [of _ tt] exI [of _ ptt]
          exI [of _ shp]) (simp add: mult.commute)
qed

lemma texture_chain_size: "GetSize2D (texture_chain_store 3) = Inr \<lparr>width = 128, height = 32, channel = 4\<rparr>"
  by (simp add:
        texture_chain_store_def texture_chain_2d_def tensor_token_def float32_def new_StorageToken_def GetSize2D_def DefaultTextureLayoutSeparator_def size_max_def
        ApplyTexture2DFlattening_def)

lemma texture_chain_request: "Request2D 3 texture_chain_store texture_chain_2d =
   Inr (Some 0, texture_chain_store(0 := (texture_chain_store 0)\<lparr>ref_counter := 1\<rparr>),
        texture_chain_2d\<lparr>blocks_2d := (blocks_2d texture_chain_2d)
                (0 \<mapsto> \<lparr>block_token = Some 0, block_x = 128, block_y = 64\<rparr>),
             free_list_2d := []\<rparr>)"
  unfolding Request2D_def texture_chain_size
  by (simp add:
        texture_chain_store_def texture_chain_2d_def tensor_token_def float32_def new_StorageToken_def Request2D_body_def search2d_init_def int64_max_def Let_def)

theorem Request2D_reuse_dtype_and_growth_witness:
  "\<exists>S' a'. Request2D 3 texture_chain_store texture_chain_2d = Inr (Some 0, S', a') \<and>
     (\<forall>sid b. blocks_2d texture_chain_2d sid = Some b \<longrightarrow> 0 \<le> sid) \<and>
     blocks_2d a' 0 = Some \<lparr>block_token = Some 0, block_x = 128, block_y = 64\<rparr>"
proof -
  obtain S' a' where r: "Request2D 3 texture_chain_store texture_chain_2d = Inr (Some 0, S', a')"
    using texture_chain_request by blast
  have ids: "\<forall>sid b. blocks_2d texture_chain_2d sid = Some b \<longrightarrow> 0 \<le> sid"
    by (simp add: texture_chain_2d_def)
  from Request2D_reuse_dtype_and_growth [OF r ids] texture_chain_size
  have "blocks_2d a' 0 = Some \<lparr>block_token = Some 0, block_x = 128, block_y = 64\<rparr>"
    by (auto simp: texture_chain_2d_def split: if_splits)
  with r ids show ?thesis by blast
qed

text \<open>
  Claim C4: the search prefers the free block that minimises the added size, and whenever
  a dtype-matching free block needs no expansion the selected block has added size 0.
  The code breaks this: with the fitting \<open>10 \<times> 10\<close> block first in the free list and a
  \<open>1 \<times> 1\<close> block after it, a request for \<open>2 \<times> 2\<close> selects the \<open>1 \<times> 1\<close> block and
  expands it (added size 3), because the second disjunct of the update condition does not
  test \<open>added_size = 0\<close>.
\<close>

lemma expansion_size: "GetSize2D (expansion_store 2) = Inr \<lparr>width = 2, height = 2, channel = 4\<rparr>"
  by (simp add: expansion_store_def tensor_token_def GetSize2D_def DefaultTextureLayoutSeparator_def size_max_def
        ApplyTexture2DFlattening_def)

theorem Request2D_expands_despite_fitting_block:
  "\<exists>S' a'. Request2D 2 expansion_store expansion_2d = Inr (Some 1, S', a') \<and>
     blocks_2d a' 1 = Some \<lparr>block_token = Some 1, block_x = 2, block_y = 2\<rparr> \<and>
     blocks_2d expansion_2d 0 = Some \<lparr>block_token = Some 0, block_x = 10, block_y = 10\<rparr> \<and>
     0 \<in> set (free_list_2d expansion_2d) \<and>
     max 10 2 * max 10 2 - 10 * 10 = (0::int) \<and>
     max 1 2 * max 1 2 - 1 * 1 = (3::int)"
  unfolding Request2D_def expansion_size
  by (simp add: expansion_store_def expansion_2d_def tensor_token_def float32_def
        Request2D_body_def search2d_init_def int64_max_def Let_def)

section \<open>TokenAllocator1D::Request\<close>

lemma takeWhile_nth_holds: "i < length (takeWhile P xs) \<Longrightarrow> P (xs ! i)"
  by (metis nth_mem set_takeWhileD takeWhile_nth)

lemma lower_bound_below: "i < lower_bound m k \<Longrightarrow> fst (m ! i) < k"
  unfolding lower_bound_def by (rule takeWhile_nth_holds)

lemma upper_bound_below: "i < upper_bound m k \<Longrightarrow> fst (m ! i) \<le> k"
  unfolding upper_bound_def by (rule takeWhile_nth_holds)

lemma lower_bound_length: "lower_bound m k \<le> length m"
  unfolding lower_bound_def by (rule length_takeWhile_le)

lemma takeWhile_length_mono:
  "(\<And>x. P x \<Longrightarrow> Q x) \<Longrightarrow> length (takeWhile P xs) \<le> length (takeWhile Q xs)"
  by (induction xs) auto

lemma lower_bound_mono: "k \<le> k' \<Longrightarrow> lower_bound m k \<le> lower_bound m k'"
  unfolding lower_bound_def by (rule takeWhile_length_mono) simp

lemma lower_le_upper_bound: "k \<le> k' \<Longrightarrow> lower_bound m k \<le> upper_bound m k'"
  unfolding lower_bound_def upper_bound_def by (rule takeWhile_length_mono) simp

lemma lower_bound_above:
  assumes "sorted (map fst m)" "lower_bound m k \<le> i" "i < length m"
  shows "k \<le> fst (m ! i)"
proof -
  let ?j = "lower_bound m k"
  have j: "?j < length m" using assms by simp
  then have "\<not> fst (m ! ?j) < k"
    unfolding lower_bound_def by (rule nth_length_takeWhile)
  moreover have "map fst m ! ?j \<le> map fst m ! i"
    using assms j by (intro sorted_nth_mono) simp_all
  ultimately show ?thesis using assms j by simp
qed

lemma search_larger_hit:
  "search_larger S dev es it stop = Inr (Some j) \<Longrightarrow>
   it \<le> j \<and> j < it + length es \<and> device_type (S (snd (es ! (j - it)))) = dev \<and>
   (it \<le> stop \<longrightarrow> j < stop)"
proof (induction es arbitrary: it)
  case Nil
  then show ?case by (simp split: if_splits)
next
  case (Cons e es)
  show ?case
  proof (cases "device_type (S (snd e)) \<noteq> dev")
    case True
    with Cons.prems have ne: "it \<noteq> stop" and r: "search_larger S dev es (Suc it) stop = Inr (Some j)"
      by (auto split: if_splits)
    from Cons.IH [OF r] ne show ?thesis by (auto simp: Suc_diff_le)
  next
    case False
    with Cons.prems show ?thesis by (auto split: if_splits)
  qed
qed

lemma search_smaller_hit:
  "search_smaller S dev es it start = Inr (Some j) \<Longrightarrow> length es = it \<Longrightarrow>
   j < it \<and> device_type (S (snd (es ! (it - 1 - j)))) = dev \<and> (start \<le> it \<longrightarrow> start \<le> j)"
proof (induction es arbitrary: it)
  case Nil
  then show ?case by (simp split: if_splits)
next
  case (Cons e es)
  show ?case
  proof (cases "device_type (S (snd e)) \<noteq> dev")
    case True
    with Cons.prems have ne: "it \<noteq> start" and r: "search_smaller S dev es (it - 1) start = Inr (Some j)"
      by (auto split: if_splits)
    from Cons.prems have l: "length es = it - 1" by auto
    from Cons.IH [OF r l] have j: "j < it - 1"
      and d: "device_type (S (snd (es ! (it - 1 - 1 - j)))) = dev"
      and s: "start \<le> it - 1 \<longrightarrow> start \<le> j" by blast+
    from j have "it - 1 - j = Suc (it - 1 - 1 - j)" by arith
    then have "(e # es) ! (it - 1 - j) = es ! (it - 1 - 1 - j)" by simp
    with d j s ne show ?thesis by auto
  next
    case False
    with Cons.prems show ?thesis by (auto split: if_splits)
  qed
qed

lemma Request1D_hit_index:
  assumes "Request1D prototype S a = Inr (Some tok, S', a')"
  shows "\<exists>sz it. GetMemorySize (S prototype) = Inr sz \<and>
           (search_larger S (device_type (S prototype))
              (drop (lower_bound (free_1d a) sz) (free_1d a)) (lower_bound (free_1d a) sz)
              (upper_bound (free_1d a) ((sz * match_range) mod size_max)) = Inr (Some it) \<or>
            search_smaller S (device_type (S prototype))
              (rev (take (lower_bound (free_1d a) sz) (free_1d a))) (lower_bound (free_1d a) sz)
              (lower_bound (free_1d a) (sz div match_range)) = Inr (Some it)) \<and>
           (Some tok, S', a') = reuse1D prototype sz it S a"
  using assms
  by (auto simp: Request1D_def Let_def match_range_def split: sum.splits option.splits if_splits)

lemma reuse1D_result:
  "(Some tok, S', a') = reuse1D prototype sz it S a \<Longrightarrow>
   tok = snd (free_1d a ! it) \<and> max_bytes (S' tok) = max sz (max_bytes (S tok)) \<and>
   ref_counter (S' tok) = ref_counter (S prototype) \<and>
   free_1d a' = multimap_erase (free_1d a) it"
  by (auto simp: reuse1D_def Let_def)

lemma fuzzy_size: "GetMemorySize (fuzzy_store 2) = Inr 31"
  by (simp add: fuzzy_store_def tensor_token_def int8_def GetMemorySize_def DivRoundUp_def
        size_max_def)

lemma fuzzy_request: "Request1D 2 fuzzy_store fuzzy_1d =
   Inr (Some 0,
        fuzzy_store(0 := (fuzzy_store 0)\<lparr>max_bytes := 31, ref_counter := 1\<rparr>),
        fuzzy_1d\<lparr>free_1d := []\<rparr>)"
  unfolding Request1D_def fuzzy_size
  by (simp add: fuzzy_store_def fuzzy_1d_def tensor_token_def match_range_def lower_bound_def
        upper_bound_def size_max_def reuse1D_def multimap_erase_def Let_def)

text \<open>
  Claim C5, as stated: at every 1D reuse hit
  \<open>|log2 (requested / cached)| \<le> log2 16\<close>.  The lower end of the window is the integer
  quotient \<open>size / 16\<close>: a request of 31 bytes reuses a cached buffer of 1 byte, and
  \<open>31 / 1 > 16\<close>.
\<close>

theorem Request1D_reuse_outside_log_window:
  "(\<exists>S' a'. Request1D 2 fuzzy_store fuzzy_1d = Inr (Some 0, S', a')) \<and>
   GetMemorySize (fuzzy_store 2) = Inr 31 \<and>
   free_1d fuzzy_1d = [(1, 0)] \<and> max_bytes (fuzzy_store 0) = 1 \<and>
   \<not> \<bar>log 2 (real 31 / real 1)\<bar> \<le> log 2 16"
proof -
  have "log 2 16 < log 2 31" by simp
  then have l: "\<not> \<bar>log 2 (real 31 / real 1)\<bar> \<le> log 2 16" by simp
  have "max_bytes (fuzzy_store 0) = 1" by (simp add: fuzzy_store_def)
  moreover have "free_1d fuzzy_1d = [(1, 0)]" by (simp add: fuzzy_1d_def)
  ultimately show ?thesis using fuzzy_request fuzzy_size l by blast
qed

text \<open>
  Claim C5, amended: whenever the 1D \<open>Request\<close> returns a reused token for a requested
  byte size \<open>sz\<close>, the key \<open>k\<close> under which the token was cached in the free list lies in
  the integer window \<open>sz div 16 \<le> k \<le> sz * 16\<close> (\<open>div\<close> rounds down), the token is on
  the requester's device, and its \<open>max_bytes\<close> becomes the maximum of \<open>sz\<close> and the old
  value.  The free list is a multimap, so it is sorted, and its keys are \<open>size_t\<close> values.
\<close>

theorem Request1D_reuse_window:
  assumes req: "Request1D prototype S a = Inr (Some tok, S', a')"
    and srt: "sorted (map fst (free_1d a))"
    and keys: "\<forall>e \<in> set (free_1d a). fst e < size_max"
  shows "\<exists>sz k. GetMemorySize (S prototype) = Inr sz \<and> (k, tok) \<in> set (free_1d a) \<and>
           sz div 16 \<le> k \<and> k \<le> sz * 16 \<and>
           device_type (S tok) = device_type (S prototype) \<and>
           max_bytes (S' tok) = max sz (max_bytes (S tok))"
proof -
  let ?m = "free_1d a"
  from Request1D_hit_index [OF req] obtain sz it where
    sz: "GetMemorySize (S prototype) = Inr sz" and
    hit: "search_larger S (device_type (S prototype)) (drop (lower_bound ?m sz) ?m)
            (lower_bound ?m sz) (upper_bound ?m ((sz * match_range) mod size_max)) = Inr (Some it) \<or>
          search_smaller S (device_type (S prototype)) (rev (take (lower_bound ?m sz) ?m))
            (lower_bound ?m sz) (lower_bound ?m (sz div match_range)) = Inr (Some it)" and
    re: "(Some tok, S', a') = reuse1D prototype sz it S a"
    by blast
  let ?mid = "lower_bound ?m sz"
  have mid: "?mid \<le> length ?m" by (rule lower_bound_length)
  from reuse1D_result [OF re] have tok: "tok = snd (?m ! it)"
    and mb: "max_bytes (S' tok) = max sz (max_bytes (S tok))" by blast+
  have "it < length ?m \<and> sz div 16 \<le> fst (?m ! it) \<and> fst (?m ! it) \<le> sz * 16 \<and>
        device_type (S (snd (?m ! it))) = device_type (S prototype)"
    using hit
  proof
    assume "search_larger S (device_type (S prototype)) (drop ?mid ?m) ?mid
              (upper_bound ?m ((sz * match_range) mod size_max)) = Inr (Some it)"
    from search_larger_hit [OF this] have ge: "?mid \<le> it"
      and lt: "it < ?mid + length (drop ?mid ?m)"
      and dv: "device_type (S (snd (drop ?mid ?m ! (it - ?mid)))) = device_type (S prototype)"
      and st: "?mid \<le> upper_bound ?m ((sz * match_range) mod size_max) \<longrightarrow>
               it < upper_bound ?m ((sz * match_range) mod size_max)"
      by blast+
    from lt mid have len: "it < length ?m" by simp
    from ge len have nth: "drop ?mid ?m ! (it - ?mid) = ?m ! it" by simp
    have lo: "sz \<le> fst (?m ! it)" by (rule lower_bound_above [OF srt ge len])
    have up: "fst (?m ! it) \<le> sz * 16"
    proof (cases "sz * 16 < size_max")
      case True
      then have e: "(sz * match_range) mod size_max = sz * 16" by (simp add: match_range_def)
      have "?mid \<le> upper_bound ?m (sz * 16)" by (rule lower_le_upper_bound) simp
      with st e have "it < upper_bound ?m (sz * 16)" by simp
      then show ?thesis by (rule upper_bound_below)
    next
      case False
      moreover have "fst (?m ! it) < size_max" using keys len by simp
      ultimately show ?thesis by simp
    qed
    have "sz div 16 \<le> sz" by simp
    with lo have "sz div 16 \<le> fst (?m ! it)" by linarith
    with len up dv nth show ?thesis by simp
  next
    assume "search_smaller S (device_type (S prototype)) (rev (take ?mid ?m)) ?mid
              (lower_bound ?m (sz div match_range)) = Inr (Some it)"
    moreover have "length (rev (take ?mid ?m)) = ?mid" using mid by simp
    ultimately have lt: "it < ?mid"
      and dv: "device_type (S (snd (rev (take ?mid ?m) ! (?mid - 1 - it)))) = device_type (S prototype)"
      and st: "lower_bound ?m (sz div match_range) \<le> ?mid \<longrightarrow>
               lower_bound ?m (sz div match_range) \<le> it"
      using search_smaller_hit by blast+
    from lt mid have len: "it < length ?m" by simp
    have "rev (take ?mid ?m) ! (?mid - 1 - it) = take ?mid ?m ! it"
      using lt mid by (simp add: rev_nth)
    then have nth: "rev (take ?mid ?m) ! (?mid - 1 - it) = ?m ! it" using lt by simp
    have "lower_bound ?m (sz div match_range) \<le> ?mid" by (rule lower_bound_mono) simp
    with st have "lower_bound ?m (sz div match_range) \<le> it" by simp
    from lower_bound_above [OF srt this len] have lo: "sz div 16 \<le> fst (?m ! it)"
      by (simp add: match_range_def)
    have "fst (?m ! it) < sz" using lt by (rule lower_bound_below)
    then have up: "fst (?m ! it) \<le> sz * 16" by simp
    from len lo up dv nth show ?thesis by simp
  qed
  then have "(fst (?m ! it), tok) \<in> set ?m" "sz div 16 \<le> fst (?m ! it)" "fst (?m ! it) \<le> sz * 16"
    "device_type (S tok) = device_type (S prototype)"
    using tok by (auto simp: in_set_conv_nth)
  with sz mb show ?thesis by blast
qed

theorem Request1D_reuse_window_witness:
  "(\<exists>S' a'. Request1D 2 fuzzy_store fuzzy_1d = Inr (Some 0, S', a')) \<and>
   sorted (map fst (free_1d fuzzy_1d)) \<and>
   list_all (\<lambda>e. fst e < size_max) (free_1d fuzzy_1d) \<and>
   (\<exists>k. (k, 0) \<in> set (free_1d fuzzy_1d) \<and> 31 div 16 \<le> k \<and> k \<le> 31 * 16)"
proof -
  have s: "sorted (map fst (free_1d fuzzy_1d))" by (simp add: fuzzy_1d_def)
  have k: "\<forall>e \<in> set (free_1d fuzzy_1d). fst e < size_max"
    by (simp add: fuzzy_1d_def size_max_def)
  from Request1D_reuse_window [OF fuzzy_request s k] fuzzy_size
  have "\<exists>k. (k, 0) \<in> set (free_1d fuzzy_1d) \<and> 31 div 16 \<le> k \<and> k \<le> 31 * 16" by auto
  moreover from k have "list_all (\<lambda>e. fst e < size_max) (free_1d fuzzy_1d)"
    by (simp add: list_all_iff)
  ultimately show ?thesis using fuzzy_request s by blast
qed

section \<open>Routing in CreateToken\<close>

text \<open>
  Claim C1, as stated: every token whose scope contains \<open>"texture"\<close> attempts reuse through
  the 2D allocator's \<open>Request\<close> before a fresh allocation.  In the state below the 2D free
  list holds a block that \<open>Request\<close> would hand out, yet \<open>CreateToken\<close> allocates the
  texture prototype afresh and leaves the free list as it was.
\<close>

theorem CreateToken_texture_skips_reuse:
  "IsTextureStorage (storage_scope (texture_chain_store 3)) \<and>
   (\<exists>S' al'. Request 3 texture_chain_store texture_chain_allocator = Inr (0, S', al')) \<and>
   (\<exists>S' al'. CreateToken_body True 3 texture_chain_store texture_chain_allocator = Inr (3, S', al') \<and>
      storage_id (S' 3) = 1 \<and> free_list_2d (token_2d al') = [0])"
proof -
  have s: "storage_scope (texture_chain_store 3) = ''texture''"
    by (simp add: texture_chain_store_def tensor_token_def)
  have a: "IsTextureStorage (storage_scope (texture_chain_store 3))"
    unfolding s by (rule texture_is_texture)
  have b: "\<exists>S' al'. Request 3 texture_chain_store texture_chain_allocator = Inr (0, S', al')"
    using a by (simp add: Request_def Is2DStorage_def texture_chain_allocator_def texture_chain_request)
  have c: "\<exists>S' al'. CreateToken_body True 3 texture_chain_store texture_chain_allocator = Inr (3, S', al') \<and>
      storage_id (S' 3) = 1 \<and> free_list_2d (token_2d al') = [0]"
    using texture_chain_size
    by (simp add: CreateToken_body_def s texture_is_texture Alloc_def Alloc2D_def Is2DStorage_def
          texture_chain_allocator_def texture_chain_2d_def Let_def)
  from a b c show ?thesis by blast
qed

lemma Alloc_fresh:
  assumes "Alloc tok S al = Inr (t, S', al')"
  shows "t = tok \<and> storage_id (S' tok) = storage_ids al \<and> storage_ids al' = storage_ids al + 1 \<and>
         ref_counter (S' tok) = ref_counter (S tok) \<and>
         device_type (S' tok) = device_type (S tok) \<and>
         free_1d (token_1d al') = free_1d (token_1d al) \<and>
         free_list_2d (token_2d al') = free_list_2d (token_2d al) \<and>
         (\<forall>p. p \<noteq> tok \<longrightarrow> S' p = S p)"
  using assms
  by (auto simp: Alloc_def Alloc1D_def Alloc2D_def split: if_splits sum.splits)

lemma CreateToken_body_global:
  "can_realloc \<and> storage_scope (S tok) = ''global'' \<Longrightarrow>
   CreateToken_body can_realloc tok S al =
     (case Request1D tok S (token_1d al) of
        Inl e \<Rightarrow> Inl e
      | Inr (Some t, S', a1) \<Rightarrow> Inr (t, S', al\<lparr>token_1d := a1\<rparr>)
      | Inr (None, S', a1) \<Rightarrow> Alloc tok S' (al\<lparr>token_1d := a1\<rparr>))"
  by (simp add: CreateToken_body_def Request_def Is2DStorage_def global_not_texture)

lemma CreateToken_body_fresh:
  assumes n: "\<not> (can_realloc \<and> storage_scope (S tok) = ''global'')"
    and c: "CreateToken_body can_realloc tok S al = Inr (t, S', al')"
  shows "t = tok \<and> storage_id (S' tok) = storage_ids al \<and>
      storage_ids al' = storage_ids al + 1 \<and>
      ref_counter (S' tok) = ref_counter (S tok) + 1 \<and>
      free_1d (token_1d al') = free_1d (token_1d al) \<and>
      free_list_2d (token_2d al') = free_list_2d (token_2d al)"
proof -
  from n c obtain S1 where a: "Alloc tok S al = Inr (t, S1, al')"
    and S': "S' = S1(t := (S1 t)\<lparr>device_type := device_type (S1 tok),
                                  ref_counter := ref_counter (S1 t) + 1\<rparr>)"
    by (auto simp: CreateToken_body_def Let_def split: sum.splits)
  from Alloc_fresh [OF a] S' show ?thesis by simp
qed

text \<open>
  Claim C1, amended: in the Assignment Pass only the tokens created with \<open>can_realloc\<close>
  whose scope is exactly \<open>"global"\<close> go through \<open>Request\<close>, which for them is the 1D reuse
  search with a fresh allocation on a miss.  Every other token, each token whose scope
  contains \<open>"texture"\<close> included, is allocated afresh: it is the prototype itself with the
  next storage id and one more reference, and neither free list is read or changed.
\<close>

theorem CreateToken_body_routing:
  "(can_realloc \<and> storage_scope (S tok) = ''global'' \<longrightarrow>
      CreateToken_body can_realloc tok S al =
        (case Request1D tok S (token_1d al) of
           Inl e \<Rightarrow> Inl e
         | Inr (Some t, S', a1) \<Rightarrow> Inr (t, S', al\<lparr>token_1d := a1\<rparr>)
         | Inr (None, S', a1) \<Rightarrow> Alloc tok S' (al\<lparr>token_1d := a1\<rparr>))) \<and>
   ((\<not> can_realloc \<or> IsTextureStorage (storage_scope (S tok)) \<or>
       storage_scope (S tok) \<noteq> ''global'') \<and>
      CreateToken_body can_realloc tok S al = Inr (t, S', al') \<longrightarrow>
      t = tok \<and> storage_id (S' tok) = storage_ids al \<and>
      storage_ids al' = storage_ids al + 1 \<and>
      ref_counter (S' tok) = ref_counter (S tok) + 1 \<and>
      free_1d (token_1d al') = free_1d (token_1d al) \<and>
      free_list_2d (token_2d al') = free_list_2d (token_2d al))"
proof (rule conjI)
  show "can_realloc \<and> storage_scope (S tok) = ''global'' \<longrightarrow>
      CreateToken_body can_realloc tok S al =
        (case Request1D tok S (token_1d al) of
           Inl e \<Rightarrow> Inl e
         | Inr (Some t, S', a1) \<Rightarrow> Inr (t, S', al\<lparr>token_1d := a1\<rparr>)
         | Inr (None, S', a1) \<Rightarrow> Alloc tok S' (al\<lparr>token_1d := a1\<rparr>))"
    by (rule impI) (rule CreateToken_body_global)
next
  show "(\<not> can_realloc \<or> IsTextureStorage (storage_scope (S tok)) \<or>
       storage_scope (S tok) \<noteq> ''global'') \<and>
      CreateToken_body can_realloc tok S al = Inr (t, S', al') \<longrightarrow>
      t = tok \<and> storage_id (S' tok) = storage_ids al \<and>
      storage_ids al' = storage_ids al + 1 \<and>
      ref_counter (S' tok) = ref_counter (S tok) + 1 \<and>
      free_1d (token_1d al') = free_1d (token_1d al) \<and>
      free_list_2d (token_2d al') = free_list_2d (token_2d al)"
  proof (rule impI)
    assume h: "(\<not> can_realloc \<or> IsTextureStorage (storage_scope (S tok)) \<or>
       storage_scope (S tok) \<noteq> ''global'') \<and>
      CreateToken_body can_realloc tok S al = Inr (t, S', al')"
    then have n: "\<not> (can_realloc \<and> storage_scope (S tok) = ''global'')"
      using texture_not_global by blast
    from h have c: "CreateToken_body can_realloc tok S al = Inr (t, S', al')" by blast
    from CreateToken_body_fresh [OF n c] show "t = tok \<and> storage_id (S' tok) = storage_ids al \<and>
      storage_ids al' = storage_ids al + 1 \<and>
      ref_counter (S' tok) = ref_counter (S tok) + 1 \<and>
      free_1d (token_1d al') = free_1d (token_1d al) \<and>
      free_list_2d (token_2d al') = free_list_2d (token_2d al)" by blast
  qed
qed

lemma fuzzy_scope: "storage_scope (fuzzy_store 2) = ''global''"
  by (simp add: fuzzy_store_def tensor_token_def)

lemma texture_chain_scope: "storage_scope (texture_chain_store 3) = ''texture''"
  by (simp add: texture_chain_store_def tensor_token_def)

lemma texture_chain_create:
  "\<exists>S' al'. CreateToken_body True 3 texture_chain_store texture_chain_allocator = Inr (3, S', al')"
  using texture_chain_size
  by (simp add: CreateToken_body_def texture_chain_scope texture_is_texture Alloc_def Alloc2D_def
        Is2DStorage_def texture_chain_allocator_def Let_def)

theorem CreateToken_body_routing_witness:
  "(\<exists>S' al'. CreateToken_body True 2 fuzzy_store fuzzy_allocator = Inr (0, S', al')) \<and>
   storage_scope (fuzzy_store 2) = ''global'' \<and>
   IsTextureStorage (storage_scope (texture_chain_store 3)) \<and>
   (\<exists>S' al'. CreateToken_body True 3 texture_chain_store texture_chain_allocator = Inr (3, S', al') \<and>
      storage_id (S' 3) = 1 \<and> free_list_2d (token_2d al') = [0])"
proof -
  have g: "True \<and> storage_scope (fuzzy_store 2) = ''global''"
    by (simp add: fuzzy_scope)
  from CreateToken_body_routing [of True fuzzy_store 2 fuzzy_allocator] g
  have "CreateToken_body True 2 fuzzy_store fuzzy_allocator =
        (case Request1D 2 fuzzy_store (token_1d fuzzy_allocator) of
           Inl e \<Rightarrow> Inl e
         | Inr (Some t, S', a1) \<Rightarrow> Inr (t, S', fuzzy_allocator\<lparr>token_1d := a1\<rparr>)
         | Inr (None, S', a1) \<Rightarrow> Alloc 2 S' (fuzzy_allocator\<lparr>token_1d := a1\<rparr>))"
    by blast
  then have a: "\<exists>S' al'. CreateToken_body True 2 fuzzy_store fuzzy_allocator = Inr (0, S', al')"
    by (simp add: fuzzy_allocator_def fuzzy_request)
  have t: "IsTextureStorage (storage_scope (texture_chain_store 3))"
    by (simp add: texture_chain_scope texture_is_texture)
  from texture_chain_create obtain S' al' where
    c: "CreateToken_body True 3 texture_chain_store texture_chain_allocator = Inr (3, S', al')"
    by blast
  from CreateToken_body_routing [of True texture_chain_store 3 texture_chain_allocator 3 S' al'] t c
  have "storage_id (S' 3) = storage_ids texture_chain_allocator \<and>
        free_list_2d (token_2d al') = free_list_2d (token_2d texture_chain_allocator)"
    by blast
  then have "storage_id (S' 3) = 1 \<and> free_list_2d (token_2d al') = [0]"
    by (simp add: texture_chain_allocator_def texture_chain_2d_def)
  with a g t c show ?thesis by blast
qed

section \<open>Evaluating the planner on the examples\<close>

lemmas init_defs = GetInitTokenMap_def Run_init_def init_visitor_new_def
  CreateToken_init_def make_token_def set_token_def memo_def find_token_def
  new_StorageToken_def Let_def tuple_get_item_def

lemmas alloc_defs = Run_alloc_def alloc_visitor_new_def CreateToken_alloc_def
  CreateToken_body_def Request_def Alloc_def Request1D_def Alloc1D_def CheckForRelease_def
  CheckForRelease1D_def Is2DStorage_def IsTextureStorage_def GetMemorySize_def DivRoundUp_def
  size_max_def match_range_def lower_bound_def upper_bound_def multimap_insert_def
  multimap_erase_def reuse1D_def TokenAllocator_init_def int8_def

lemma chain_run_eval:
  "(case GetInitTokenMap no_info no_info chain_func of
      Inl e \<Rightarrow> False
    | Inr si \<Rightarrow>
        (case Run_alloc (token_map si) chain_func (alloc_visitor_new (arena si)) of
           Inl e \<Rightarrow> False
         | Inr s \<Rightarrow>
             map_of (token_map si) (KCall, 2) = Some [3] \<and>
             storage_id (arena si 3) = - 1 \<and> max_bytes (arena si 3) = 0 \<and>
             ref_counter (arena si 3) = 1 \<and>
             storage_id (arena s 3) = 1 \<and> max_bytes (arena s 3) = 10 \<and>
             ref_counter (arena s 3) = 2 \<and>
             map_of (token_map s) (KCall, 4) = Some [3] \<and>
             history s =
               [Fresh 0, Requested 3 3, Released 3 1, Released 0 1, Requested 2 2,
                Released 2 1, Released 3 0, Requested 1 3, Released 3 1, Released 2 0] \<and>
             free_1d (token_1d (allocator s)) = [(10, 2)]))"
  by (simp add: init_defs alloc_defs chain_func_def vec10_def no_info_def)

lemma chain_run:
  "\<exists>si s. GetInitTokenMap no_info no_info chain_func = Inr si \<and>
     Run_alloc (token_map si) chain_func (alloc_visitor_new (arena si)) = Inr s \<and>
     map_of (token_map si) (KCall, 2) = Some [3] \<and>
     storage_id (arena si 3) = - 1 \<and> max_bytes (arena si 3) = 0 \<and>
     ref_counter (arena si 3) = 1 \<and>
     storage_id (arena s 3) = 1 \<and> max_bytes (arena s 3) = 10 \<and>
     ref_counter (arena s 3) = 2 \<and>
     map_of (token_map s) (KCall, 4) = Some [3] \<and>
     history s =
       [Fresh 0, Requested 3 3, Released 3 1, Released 0 1, Requested 2 2,
        Released 2 1, Released 3 0, Requested 1 3, Released 3 1, Released 2 0] \<and>
     free_1d (token_1d (allocator s)) = [(10, 2)]"
  using chain_run_eval by (auto split: sum.splits)

lemma unary_run_eval:
  "(case GetInitTokenMap call_on_device no_info unary_func of
      Inl e \<Rightarrow> False
    | Inr si \<Rightarrow>
        (case Run_alloc (token_map si) unary_func (alloc_visitor_new (arena si)) of
           Inl e \<Rightarrow> False
         | Inr s \<Rightarrow>
             token_map s = [((KVar, 0), [0]), ((KCall, 2), [1])] \<and>
             device_type (arena s 0) = 0 \<and> device_type (arena s 1) = 1))"
  by (simp add: init_defs alloc_defs unary_func_def vec10_def no_info_def call_on_device_def)

lemma unary_run:
  "\<exists>si s. GetInitTokenMap call_on_device no_info unary_func = Inr si \<and>
     Run_alloc (token_map si) unary_func (alloc_visitor_new (arena si)) = Inr s \<and>
     token_map s = [((KVar, 0), [0]), ((KCall, 2), [1])] \<and>
     device_type (arena s 0) = 0 \<and> device_type (arena s 1) = 1"
  using unary_run_eval by (auto split: sum.splits)

section \<open>Serialization\<close>

lemma Plan_tokens_eq:
  "Plan_tokens S toks ((a, b, c), an, n) =
     ((a @ map (\<lambda>t. storage_id (S t)) toks, b @ map (\<lambda>t. device_type (S t)) toks,
       c @ map (\<lambda>t. storage_scope (S t)) toks),
      an + length (filter (\<lambda>t. device_type (S t) \<noteq> 0) toks), n + length toks)"
  by (induction toks arbitrary: a b c an n) auto

lemma Plan_loop_eq:
  "Plan_loop S kvs r =
     \<lparr>smap = smap r @ map (\<lambda>kv. (fst kv, plan_row_of S (snd kv))) kvs,
      num_annotated_nodes = num_annotated_nodes r +
        length (filter (\<lambda>t. device_type (S t) \<noteq> 0) (concat (map snd kvs))),
      num_nodes = num_nodes r + length (concat (map snd kvs))\<rparr>"
proof (induction kvs arbitrary: r)
  case Nil
  then show ?case by simp
next
  case (Cons kv kvs)
  show ?case
    by (simp add: Plan_tokens_eq plan_row_of_def Cons.IH)
qed

lemma some_not_all:
  "(length (filter Q xs) \<noteq> 0 \<and> length (filter Q xs) \<noteq> length xs) =
   ((\<exists>x \<in> set xs. Q x) \<and> (\<exists>x \<in> set xs. \<not> Q x))"
proof -
  have "(length (filter Q xs) = length xs) = (\<forall>x \<in> set xs. Q x)"
  proof
    assume e: "length (filter Q xs) = length xs"
    show "\<forall>x \<in> set xs. Q x"
    proof
      fix x assume "x \<in> set xs"
      then show "Q x" using e length_filter_less [of x xs Q] by auto
    qed
  next
    assume "\<forall>x \<in> set xs. Q x"
    then show "length (filter Q xs) = length xs" by simp
  qed
  moreover have "(length (filter Q xs) = 0) = (\<forall>x \<in> set xs. \<not> Q x)"
    by (simp add: filter_empty_conv)
  ultimately show ?thesis by blast
qed

lemma Plan_serialize_eq:
  "Plan_serialize S tm =
     (if (\<exists>t \<in> set (concat (map snd tm)). device_type (S t) \<noteq> 0) \<and>
         (\<exists>t \<in> set (concat (map snd tm)). device_type (S t) = 0)
      then Inl (MixedDeviceAnnotation
                  (length (filter (\<lambda>t. device_type (S t) \<noteq> 0) (concat (map snd tm))))
                  (length (concat (map snd tm))))
      else Inr (map (\<lambda>kv. (fst kv, plan_row_of S (snd kv))) tm))"
proof -
  let ?ts = "concat (map snd tm)"
  let ?Q = "\<lambda>t. device_type (S t) \<noteq> 0"
  have "(length (filter ?Q ?ts) \<noteq> 0 \<and> length (filter ?Q ?ts) \<noteq> length ?ts) =
        ((\<exists>t \<in> set ?ts. ?Q t) \<and> (\<exists>t \<in> set ?ts. \<not> ?Q t))"
    by (rule some_not_all)
  then show ?thesis
    by (simp add: Plan_serialize_def Plan_loop_eq Let_def del: set_concat)
qed

text \<open>
  Claim C9: \<open>Plan\<close> enforces the all-or-none device annotation rule at serialization.  If
  some but not all of the serialized tokens have \<open>device_type \<noteq> 0\<close> it fails with the
  error that carries the number of annotated tokens and the number of tokens; otherwise it
  returns, for every entry of the token map, the triple of storage ids, device types and
  storage scopes of its tokens.
\<close>

theorem Plan_all_or_none:
  assumes "GetInitTokenMap dm sm func = Inr si"
    and "Run_alloc (token_map si) func (alloc_visitor_new (arena si)) = Inr s"
  shows "Plan dm sm func =
     (if (\<exists>t \<in> set (concat (map snd (token_map s))). device_type (arena s t) \<noteq> 0) \<and>
         (\<exists>t \<in> set (concat (map snd (token_map s))). device_type (arena s t) = 0)
      then Inl (MixedDeviceAnnotation
                  (length (filter (\<lambda>t. device_type (arena s t) \<noteq> 0)
                             (concat (map snd (token_map s)))))
                  (length (concat (map snd (token_map s)))))
      else Inr (map (\<lambda>kv. (fst kv, plan_row_of (arena s) (snd kv))) (token_map s)))"
  using assms by (simp add: Plan_def Plan_serialize_eq del: set_concat)

theorem Plan_all_or_none_witness:
  "Plan call_on_device no_info unary_func = Inl (MixedDeviceAnnotation 1 2)"
proof -
  from unary_run obtain si s where
    l: "GetInitTokenMap call_on_device no_info unary_func = Inr si" and
    r: "Run_alloc (token_map si) unary_func (alloc_visitor_new (arena si)) = Inr s" and
    t: "token_map s = [((KVar, 0), [0]), ((KCall, 2), [1])]" and
    d: "device_type (arena s 0) = 0" "device_type (arena s 1) = 1"
    by blast
  show ?thesis unfolding Plan_all_or_none [OF l r] using t d by simp
qed

section \<open>What the assignment pass writes\<close>

lemma memo_Inr:
  "memo k s r = Inr s' \<Longrightarrow>
   (k \<in> visit_counter s \<and> s' = s) \<or>
   (k \<notin> visit_counter s \<and> (\<exists>s1. r = Inr s1 \<and> s' = s1\<lparr>visit_counter := insert k (visit_counter s1)\<rparr>))"
  by (auto simp: memo_def split: if_splits sum.splits)

lemma find_token_Inr:
  "find_token k r = Inr (toks, s') \<Longrightarrow> r = Inr s' \<and> map_of (token_map s') k = Some toks"
  by (auto simp: find_token_def split: sum.splits option.splits)

lemma GetTokens_alloc_invariant:
  assumes "\<And>x s s'. x \<in> set es \<Longrightarrow> VisitExpr_alloc P x s = Inr s' \<Longrightarrow> I s \<Longrightarrow> I s'"
  shows "GetTokens_alloc P es s = Inr (toks, s') \<Longrightarrow> I s \<Longrightarrow> I s'"
  using assms
proof (induction es arbitrary: s toks)
  case Nil
  then show ?case by simp
next
  case (Cons x xs)
  from Cons.prems(1) obtain tokens s1 rest where
    f: "find_token (ref_of x) (VisitExpr_alloc P x s) = Inr (tokens, s1)" and
    g: "GetTokens_alloc P xs s1 = Inr (rest, s')"
    by (auto split: sum.splits)
  from find_token_Inr [OF f] have v: "VisitExpr_alloc P x s = Inr s1" by simp
  have i1: "I s1" using Cons.prems(3) [OF _ v Cons.prems(2)] by simp
  have a: "\<And>y s s'. y \<in> set xs \<Longrightarrow> VisitExpr_alloc P y s = Inr s' \<Longrightarrow> I s \<Longrightarrow> I s'"
    using Cons.prems(3) by (meson list.set_intros(2))
  show ?case by (rule Cons.IH [OF g i1 a])
qed

lemma alloc_pass_invariant:
  fixes I :: "alloc_visitor \<Rightarrow> bool"
  assumes tm: "\<And>s k toks. I s \<Longrightarrow> I (set_token k toks s)"
    and vc: "\<And>s vc. I s \<Longrightarrow> I (s\<lparr>visit_counter := vc\<rparr>)"
    and ct: "\<And>op b s s'. I s \<Longrightarrow> CreateToken_alloc P op b s = Inr s' \<Longrightarrow> I s'"
    and cr: "\<And>toks s s'. I s \<Longrightarrow> CheckForRelease_all toks s = Inr s' \<Longrightarrow> I s'"
    and ra: "\<And>toks s s'. I s \<Longrightarrow> release_args toks s = Inr s' \<Longrightarrow> I s'"
  shows "VisitExpr_alloc P e s = Inr s' \<Longrightarrow> I s \<Longrightarrow> I s'"
proof (induction e arbitrary: s s')
  case (Constant n ty)
  then show ?case
    by (auto dest!: memo_Inr intro!: vc intro: ct)
next
  case (Var n)
  then show ?case by (auto dest!: memo_Inr intro: vc)
next
  case (FunctionE n)
  then show ?case by (auto dest!: memo_Inr intro: vc)
next
  case (GlobalVar n)
  then show ?case by (auto dest!: memo_Inr intro: vc)
next
  case (Op n)
  then show ?case by (auto dest!: memo_Inr intro: vc)
next
  case (Tuple n flds)
  from memo_Inr [OF Tuple.prems(1) [simplified]] show ?case
  proof (elim disjE conjE exE)
    assume "s' = s" then show ?thesis using Tuple.prems by simp
  next
    fix s1
    assume r: "(case GetTokens_alloc P flds s of Inl e \<Rightarrow> Inl e
               | Inr (toks, s1) \<Rightarrow> Inr (set_token (KTuple, n) toks s1)) = Inr s1"
      and s': "s' = s1\<lparr>visit_counter := insert (KTuple, n) (visit_counter s1)\<rparr>"
    from r obtain toks s0 where g: "GetTokens_alloc P flds s = Inr (toks, s0)"
      and s1: "s1 = set_token (KTuple, n) toks s0"
      by (auto split: sum.splits)
    from GetTokens_alloc_invariant [of flds P I, OF Tuple.IH g Tuple.prems(2)] have "I s0" by simp
    then show ?thesis unfolding s' s1 by (intro vc tm)
  qed
next
  case (TupleGetItem n tuple index)
  from memo_Inr [OF TupleGetItem.prems(1) [simplified]] show ?case
  proof (elim disjE conjE exE)
    assume "s' = s" then show ?thesis using TupleGetItem.prems by simp
  next
    fix s1
    assume r: "(case find_token (ref_of tuple) (VisitExpr_alloc P tuple s) of Inl e \<Rightarrow> Inl e
               | Inr (tok, s1) \<Rightarrow> tuple_get_item (KTupleGetItem, n) index tok s1) = Inr s1"
      and s': "s' = s1\<lparr>visit_counter := insert (KTupleGetItem, n) (visit_counter s1)\<rparr>"
    from r obtain tok s0 where f: "find_token (ref_of tuple) (VisitExpr_alloc P tuple s) = Inr (tok, s0)"
      and t: "tuple_get_item (KTupleGetItem, n) index tok s0 = Inr s1"
      by (auto split: sum.splits)
    from find_token_Inr [OF f] have "VisitExpr_alloc P tuple s = Inr s0" by simp
    from TupleGetItem.IH [OF this TupleGetItem.prems(2)] have "I s0" .
    moreover from t have "s1 = set_token (KTupleGetItem, n) [tok ! nat index] s0"
      by (auto simp: tuple_get_item_def split: if_splits)
    ultimately show ?thesis unfolding s' by (auto intro: vc tm)
  qed
next
  case (If n)
  then show ?case by (auto dest!: memo_Inr)
next
  case (Let n v val bdy)
  from memo_Inr [OF Let.prems(1) [simplified]] show ?case
  proof (elim disjE conjE exE)
    assume "s' = s" then show ?thesis using Let.prems by simp
  next
    fix s3
    assume r: "(case find_token (ref_of val) (VisitExpr_alloc P val s) of Inl e \<Rightarrow> Inl e
        | Inr (token, s1) \<Rightarrow>
            (case find_token (ref_of bdy) (VisitExpr_alloc P bdy (set_token (KVar, v) token s1)) of
               Inl e \<Rightarrow> Inl e
             | Inr (toks, s2) \<Rightarrow> Inr (set_token (KLet, n) toks s2))) = Inr s3"
      and s': "s' = s3\<lparr>visit_counter := insert (KLet, n) (visit_counter s3)\<rparr>"
    from r obtain token s1 where f1: "find_token (ref_of val) (VisitExpr_alloc P val s) = Inr (token, s1)"
      by (auto split: sum.splits)
    with r obtain toks s2 where
      f2: "find_token (ref_of bdy) (VisitExpr_alloc P bdy (set_token (KVar, v) token s1)) = Inr (toks, s2)"
      and s3: "s3 = set_token (KLet, n) toks s2"
      by (auto split: sum.splits)
    from find_token_Inr [OF f1] have v1: "VisitExpr_alloc P val s = Inr s1" by simp
    from find_token_Inr [OF f2]
    have v2: "VisitExpr_alloc P bdy (set_token (KVar, v) token s1) = Inr s2" by simp
    from Let.IH(1) [OF v1 Let.prems(2)] have "I s1" .
    then have "I (set_token (KVar, v) token s1)" by (rule tm)
    from Let.IH(2) [OF v2 this] have "I s2" .
    then show ?thesis unfolding s' s3 by (intro vc tm)
  qed
next
  case (Call n ty args)
  from memo_Inr [OF Call.prems(1) [simplified]] show ?case
  proof (elim disjE conjE exE)
    assume "s' = s" then show ?thesis using Call.prems by simp
  next
    fix s4
    assume r: "(case GetTokens_alloc P args s of Inl e \<Rightarrow> Inl e
        | Inr (args_toks, s1) \<Rightarrow>
            (case CreateToken_alloc P (KCall, n) True s1 of Inl e \<Rightarrow> Inl e
             | Inr s2 \<Rightarrow>
                 (case map_of (token_map s2) (KCall, n) of None \<Rightarrow> Inl CheckFailed
                  | Some toks \<Rightarrow>
                      (case CheckForRelease_all toks s2 of Inl e \<Rightarrow> Inl e
                       | Inr s3 \<Rightarrow> release_args args_toks s3)))) = Inr s4"
      and s': "s' = s4\<lparr>visit_counter := insert (KCall, n) (visit_counter s4)\<rparr>"
    from r obtain args_toks s1 s2 toks s3 where
      g: "GetTokens_alloc P args s = Inr (args_toks, s1)" and
      c: "CreateToken_alloc P (KCall, n) True s1 = Inr s2" and
      k: "CheckForRelease_all toks s2 = Inr s3" and
      a: "release_args args_toks s3 = Inr s4"
      by (auto split: sum.splits option.splits)
    from GetTokens_alloc_invariant [of args P I, OF Call.IH g Call.prems(2)] have "I s1" by simp
    from ct [OF this c] have "I s2" .
    from cr [OF this k] have "I s3" .
    from ra [OF this a] have "I s4" .
    then show ?thesis unfolding s' by (rule vc)
  qed
qed

lemma static_eq_refl: "static_eq S S"
  by (simp add: static_eq_def)

lemma static_eq_trans: "static_eq S S1 \<Longrightarrow> static_eq S1 S2 \<Longrightarrow> static_eq S S2"
  by (simp add: static_eq_def)

lemma static_eq_Request1D:
  "Request1D p S a = Inr (r, S', a') \<Longrightarrow> static_eq S S'"
  by (auto simp: Request1D_def reuse1D_def Let_def static_eq_def
           split: sum.splits option.splits if_splits)

lemma static_eq_Request2D:
  "Request2D p S a = Inr (r, S', a') \<Longrightarrow> static_eq S S'"
  by (auto simp: Request2D_def Let_def static_eq_def
           split: sum.splits option.splits if_splits)

lemma static_eq_Alloc:
  "Alloc p S al = Inr (t, S', al') \<Longrightarrow> static_eq S S'"
  by (auto simp: Alloc_def Alloc1D_def Alloc2D_def static_eq_def split: sum.splits if_splits)

lemma static_eq_Request:
  assumes "Request p S al = Inr (t, S', al')"
  shows "static_eq S S'"
proof (cases "Is2DStorage (S p)")
  case True
  with assms show ?thesis
    by (auto simp: Request_def split: sum.splits option.splits
             dest!: static_eq_Request2D static_eq_Alloc intro: static_eq_trans)
next
  case False
  with assms show ?thesis
    by (auto simp: Request_def split: sum.splits option.splits
             dest!: static_eq_Request1D static_eq_Alloc intro: static_eq_trans)
qed

lemma Alloc_returns_prototype: "Alloc p S al = Inr (t, S', al') \<Longrightarrow> t = p"
  by (auto simp: Alloc_def Alloc1D_def Alloc2D_def split: sum.splits if_splits)

lemma static_eq_CreateToken_body:
  assumes "CreateToken_body b p S al = Inr (t, S', al')"
  shows "static_eq S S'"
proof (cases "b \<and> storage_scope (S p) = ''global''")
  case True
  with assms show ?thesis by (auto simp: CreateToken_body_def dest: static_eq_Request)
next
  case False
  with assms obtain S1 where a: "Alloc p S al = Inr (t, S1, al')"
    and S': "S' = S1(t := (S1 t)\<lparr>device_type := device_type (S1 p),
                                  ref_counter := ref_counter (S1 t) + 1\<rparr>)"
    by (auto simp: CreateToken_body_def Let_def split: sum.splits)
  from Alloc_returns_prototype [OF a] have "t = p" .
  with static_eq_Alloc [OF a] S' show ?thesis by (simp add: static_eq_def)
qed

lemma static_eq_CreateToken_loop:
  "CreateToken_loop b toks s = Inr (ts, s') \<Longrightarrow> static_eq (arena s) (arena s')"
proof (induction toks arbitrary: s ts)
  case Nil
  then show ?case by (simp add: static_eq_refl)
next
  case (Cons tok toks)
  from Cons.prems obtain t S1 al1 ts' where
    c: "CreateToken_body b tok (arena s) (allocator s) = Inr (t, S1, al1)" and
    l: "CreateToken_loop b toks
          (s\<lparr>arena := S1, allocator := al1,
             history := history s @
               [if b \<and> storage_scope (arena s tok) = ''global''
                then Requested tok t else Fresh t]\<rparr>) = Inr (ts', s')"
    by (auto split: sum.splits)
  from Cons.IH [OF l] static_eq_CreateToken_body [OF c] show ?case
    by (auto intro: static_eq_trans)
qed

lemma static_eq_CreateToken_alloc:
  "CreateToken_alloc P op b s = Inr s' \<Longrightarrow> static_eq (arena s) (arena s')"
  by (auto simp: CreateToken_alloc_def set_token_def split: if_splits option.splits sum.splits
           dest: static_eq_CreateToken_loop)

lemma arena_CheckForRelease_all:
  "CheckForRelease_all toks s = Inr s' \<Longrightarrow> arena s' = arena s"
  by (induction toks arbitrary: s) (auto split: sum.splits)

lemma static_eq_release_args:
  "release_args toks s = Inr s' \<Longrightarrow> static_eq (arena s) (arena s')"
proof (induction toks arbitrary: s)
  case Nil
  then show ?case by (simp add: static_eq_refl)
next
  case (Cons tok toks)
  let ?S1 = "(arena s)(tok := (arena s tok)\<lparr>ref_counter := ref_counter (arena s tok) - 1\<rparr>)"
  from Cons.prems obtain al where
    r: "release_args toks (s\<lparr>arena := ?S1, allocator := al,
           history := history s @ [Released tok (ref_counter (?S1 tok))]\<rparr>) = Inr s'"
    by (auto simp: Let_def split: sum.splits)
  have "static_eq (arena s) ?S1" by (simp add: static_eq_def)
  moreover from Cons.IH [OF r] have "static_eq ?S1 (arena s')" by (simp add: static_eq_def)
  ultimately show ?case by (rule static_eq_trans)
qed

lemma static_eq_incr_all: "static_eq S (incr_all toks S)"
proof (induction toks arbitrary: S)
  case Nil
  then show ?case by (simp add: static_eq_refl)
next
  case (Cons tok toks)
  have "static_eq S (S(tok := (S tok)\<lparr>ref_counter := ref_counter (S tok) + 1\<rparr>))"
    by (simp add: static_eq_def)
  moreover have "static_eq (S(tok := (S tok)\<lparr>ref_counter := ref_counter (S tok) + 1\<rparr>))
      (incr_all (tok # toks) S)" using Cons.IH by (simp add: static_eq_def)
  ultimately show ?case by (rule static_eq_trans)
qed

lemma static_eq_VisitExpr_alloc:
  assumes "VisitExpr_alloc P e s = Inr s'"
  shows "static_eq (arena s) (arena s')"
proof -
  have "static_eq (arena s) (arena s')"
  proof (rule alloc_pass_invariant [where I = "\<lambda>x. static_eq (arena s) (arena x)", OF _ _ _ _ _ assms])
    show "static_eq (arena s) (arena s)" by (rule static_eq_refl)
  qed (auto simp: set_token_def dest: static_eq_CreateToken_alloc arena_CheckForRelease_all
         static_eq_release_args intro: static_eq_trans)
  then show ?thesis .
qed

lemma static_eq_CreateParams_alloc:
  "CreateParams_alloc P ps s = Inr s' \<Longrightarrow> static_eq (arena s) (arena s')"
proof (induction ps arbitrary: s)
  case Nil
  then show ?case by (simp add: static_eq_refl)
next
  case (Cons p ps)
  then show ?case
    by (auto split: sum.splits dest!: static_eq_CreateToken_alloc intro: static_eq_trans)
qed

lemma static_eq_Run_alloc:
  assumes "Run_alloc P func s = Inr s'"
  shows "static_eq (arena s) (arena s')"
proof -
  from assms obtain s1 toks s2 where
    p: "CreateParams_alloc P (func_params func) s = Inr s1" and
    f: "find_token (ref_of (func_body func)) (VisitExpr_alloc P (func_body func) s1) = Inr (toks, s2)" and
    s': "s' = s2\<lparr>arena := incr_all toks (arena s2)\<rparr>"
    by (auto simp: Run_alloc_def split: sum.splits)
  from find_token_Inr [OF f] have "VisitExpr_alloc P (func_body func) s1 = Inr s2" by simp
  from static_eq_VisitExpr_alloc [OF this] static_eq_CreateParams_alloc [OF p]
       static_eq_incr_all [of "arena s2" toks] s'
  show ?thesis by (auto intro: static_eq_trans)
qed

text \<open>
  Claim C10, as stated: no field of a prototype token is modified between the end of the
  liveness pass and the end of serialization.  In the chain example the prototype of the
  first call is token 3; the assignment pass writes its \<open>storage_id\<close>, its \<open>max_bytes\<close>
  and its \<open>ref_counter\<close>.
\<close>

theorem Plan_writes_prototype:
  "\<exists>si s. GetInitTokenMap no_info no_info chain_func = Inr si \<and>
     Run_alloc (token_map si) chain_func (alloc_visitor_new (arena si)) = Inr s \<and>
     map_of (token_map si) (KCall, 2) = Some [3] \<and>
     storage_id (arena si 3) = - 1 \<and> storage_id (arena s 3) = 1 \<and>
     max_bytes (arena si 3) = 0 \<and> max_bytes (arena s 3) = 10 \<and>
     ref_counter (arena si 3) = 1 \<and> ref_counter (arena s 3) = 2"
  using chain_run by blast

text \<open>
  Claim C10, amended: the assignment pass never modifies the \<open>ttype\<close>, the
  \<open>device_type\<close> or the \<open>storage_scope\<close> of a token, and serialization writes nothing.
  \<open>Alloc\<close> consumes the prototype: the token it returns is the prototype itself, with the
  new storage id written into it.
\<close>

theorem Plan_keeps_static_fields:
  assumes "GetInitTokenMap dm sm func = Inr si"
    and "Run_alloc (token_map si) func (alloc_visitor_new (arena si)) = Inr s"
  shows "(\<forall>p. ttype (arena s p) = ttype (arena si p) \<and>
              device_type (arena s p) = device_type (arena si p) \<and>
              storage_scope (arena s p) = storage_scope (arena si p)) \<and>
         (\<forall>p S al t S' al'. Alloc p S al = Inr (t, S', al') \<longrightarrow>
              t = p \<and> storage_id (S' p) = storage_ids al)"
proof -
  from static_eq_Run_alloc [OF assms(2)] have "static_eq (arena si) (arena s)"
    by (simp add: alloc_visitor_new_def)
  then have a: "\<forall>p. ttype (arena s p) = ttype (arena si p) \<and>
              device_type (arena s p) = device_type (arena si p) \<and>
              storage_scope (arena s p) = storage_scope (arena si p)"
    by (simp add: static_eq_def)
  have "\<And>p S al t S' al'. Alloc p S al = Inr (t, S', al') \<Longrightarrow>
              t = p \<and> storage_id (S' p) = storage_ids al"
    by (auto simp: Alloc_def Alloc1D_def Alloc2D_def split: sum.splits if_splits)
  with a show ?thesis by blast
qed

theorem Plan_keeps_static_fields_witness:
  "\<exists>si s. GetInitTokenMap no_info no_info chain_func = Inr si \<and>
     Run_alloc (token_map si) chain_func (alloc_visitor_new (arena si)) = Inr s \<and>
     map_of (token_map si) (KCall, 2) = Some [3] \<and>
     storage_scope (arena s 3) = storage_scope (arena si 3) \<and>
     device_type (arena s 3) = device_type (arena si 3) \<and>
     ttype (arena s 3) = ttype (arena si 3) \<and>
     storage_id (arena s 3) = 1"
proof -
  from chain_run obtain si s where
    l: "GetInitTokenMap no_info no_info chain_func = Inr si" and
    r: "Run_alloc (token_map si) chain_func (alloc_visitor_new (arena si)) = Inr s" and
    m: "map_of (token_map si) (KCall, 2) = Some [3]" and
    i: "storage_id (arena s 3) = 1"
    by blast
  from Plan_keeps_static_fields [OF l r]
  have "storage_scope (arena s 3) = storage_scope (arena si 3) \<and>
     device_type (arena s 3) = device_type (arena si 3) \<and>
     ttype (arena s 3) = ttype (arena si 3)" by blast
  with l r m i show ?thesis by blast
qed

end
